theory Spec2Isabelle
  imports Main "HOL-Library.Sublist" "HOL-Library.Monad_Syntax" "HOL-Library.Char_ord"
    "HOL-Library.List_Lexorder"
begin

section \<open>Console processes of the session: SessionConsoleProcess.cpp\<close>

text \<open>
  A shallow embedding of \<^verbatim>\<open>src/cpp/session/SessionConsoleProcess.cpp\<close>: the password manager,
  the console process with its callbacks, and the table of console processes with its
  persisted index. Objects are records, the outside of an object (client event queue, scratch
  directory, process supervisor) is a record that every operation takes and returns, and the
  C++ \<^verbatim>\<open>Error\<close> type is \<open>error option\<close> with \<open>None\<close> for \<^verbatim>\<open>Success()\<close>. A data member
  that the source writes with a trailing underscore (\<^verbatim>\<open>passwords_\<close>) is written with a prime
  here (\<open>passwords'\<close>), since a name cannot end in an underscore.
\<close>

subsection \<open>Characters and input\<close>

abbreviation LF :: char where "LF \<equiv> CHR 0x0A"
abbreviation CR :: char where "CR \<equiv> CHR 0x0D"
abbreviation BS :: char where "BS \<equiv> CHR 0x08"
abbreviation FF :: char where "FF \<equiv> CHR 0x0C"

text \<open>
  Modelled from the spec: the struct \<^verbatim>\<open>ConsoleProcess::Input\<close> is declared in
  SessionConsoleProcess.hpp, which is not part of the sources at hand. The spec gives it as
  an interrupt signal, or text plus the \<^verbatim>\<open>echoInput\<close> flag; the source uses the constructors
  \<^verbatim>\<open>Input()\<close> and \<^verbatim>\<open>Input(text, echoInput)\<close> and the test \<^verbatim>\<open>empty()\<close>.
\<close>

record Input =
  Input_interrupt :: bool
  Input_text :: string
  Input_echoInput :: bool

definition Input0 :: Input where
  "Input0 = \<lparr>Input_interrupt = False, Input_text = [], Input_echoInput = False\<rparr>"

definition Input2 :: "string \<Rightarrow> bool \<Rightarrow> Input" where
  "Input2 t e = \<lparr>Input_interrupt = False, Input_text = t, Input_echoInput = e\<rparr>"

definition Input_empty :: "Input \<Rightarrow> bool" where
  "Input_empty i = (Input_text i = [])"

subsection \<open>PasswordManager\<close>

record CachedPassword =
  cpHandle :: string
  prompt :: string
  password :: string
  remember :: bool

text \<open>
  The manager holds its pattern and the interactive callback (both given at construction,
  outside this file: they are fields here) and the vector \<^verbatim>\<open>passwords_\<close>. The callback
  returns the password and the remember flag, or \<open>None\<close> when the user cancelled;
  \<open>promptHandlerCalls\<close> records each invocation of it, oldest first.
\<close>

record PasswordManager =
  promptPattern' :: "string \<Rightarrow> bool"
  promptHandler' :: "string \<Rightarrow> bool \<Rightarrow> (string \<times> bool) option"
  passwords' :: "CachedPassword list"
  promptHandlerCalls :: "(string \<times> bool) list"

definition hasPrompt :: "CachedPassword \<Rightarrow> string \<Rightarrow> bool" where
  "hasPrompt cachedPassword p = (prompt cachedPassword = p)"

definition hasHandle :: "CachedPassword \<Rightarrow> string \<Rightarrow> bool" where
  "hasHandle cachedPassword h = (cpHandle cachedPassword = h)"

definition forgetOnExit :: "CachedPassword \<Rightarrow> string \<Rightarrow> bool" where
  "forgetOnExit cachedPassword h = (hasHandle cachedPassword h \<and> \<not> remember cachedPassword)"

definition EXIT_SUCCESS :: int where
  "EXIT_SUCCESS = 0"

text \<open>
  \<^verbatim>\<open>handlePrompt\<close> returns its boolean and the value left in \<^verbatim>\<open>*pInput\<close> (the last argument
  is what \<^verbatim>\<open>*pInput\<close> held at the call), with the manager as it is afterwards.
\<close>

definition handlePrompt ::
  "PasswordManager \<Rightarrow> string \<Rightarrow> string \<Rightarrow> bool \<Rightarrow> Input \<Rightarrow> (bool \<times> Input) \<times> PasswordManager" where
  "handlePrompt pm h p showRememberOption pInput =
     (if promptPattern' pm p then
        (case find (\<lambda>c. hasPrompt c p) (passwords' pm) of
           Some it \<Rightarrow> ((True, Input2 (password it @ [LF]) False), pm)
         | None \<Rightarrow>
             (let pm1 = pm\<lparr>promptHandlerCalls := promptHandlerCalls pm @ [(p, showRememberOption)]\<rparr>
              in case promptHandler' pm p showRememberOption of
                   Some (pw, rem) \<Rightarrow>
                     ((True, Input2 (pw @ [LF]) False),
                      pm1\<lparr>passwords' := passwords' pm @
                            [\<lparr>cpHandle = h, prompt = p, password = pw, remember = rem\<rparr>]\<rparr>)
                 | None \<Rightarrow> ((True, Input0), pm1)))
      else ((False, pInput), pm))"

text \<open>\<^verbatim>\<open>erase(remove_if(...))\<close> keeps, in order, the elements the predicate rejects.\<close>

definition PasswordManager_onExit :: "PasswordManager \<Rightarrow> string \<Rightarrow> int \<Rightarrow> PasswordManager" where
  "PasswordManager_onExit pm h exitCode =
     (if exitCode \<noteq> EXIT_SUCCESS
      then pm\<lparr>passwords' := filter (\<lambda>c. \<not> hasHandle c h) (passwords' pm)\<rparr>
      else pm\<lparr>passwords' := filter (\<lambda>c. \<not> forgetOnExit c h) (passwords' pm)\<rparr>)"

subsection \<open>Regular expressions\<close>

text \<open>
  The two patterns of \<^verbatim>\<open>regexInit\<close> use character sets, \<^verbatim>\<open>+\<close> on a character set and
  concatenation. \<open>rests r s\<close> lists what is left of \<open>s\<close> after each way \<open>r\<close> can match a
  prefix of it; \<^verbatim>\<open>regex_match\<close> asks for a match of the whole string (so the anchors of
  \<^verbatim>\<open>promptPattern_\<close> add nothing), \<^verbatim>\<open>regex_search\<close> for a match starting anywhere.
\<close>

datatype regex = CharSet "char \<Rightarrow> bool" | CharSetPlus "char \<Rightarrow> bool" | Seq regex regex

fun plus_rests :: "(char \<Rightarrow> bool) \<Rightarrow> string \<Rightarrow> string list" where
  "plus_rests P [] = []"
| "plus_rests P (c # cs) = (if P c then cs # plus_rests P cs else [])"

fun rests :: "regex \<Rightarrow> string \<Rightarrow> string list" where
  "rests (CharSet P) [] = []"
| "rests (CharSet P) (c # cs) = (if P c then [cs] else [])"
| "rests (CharSetPlus P) s = plus_rests P s"
| "rests (Seq a b) s = concat (map (rests b) (rests a s))"

definition regex_match :: "string \<Rightarrow> regex \<Rightarrow> bool" where
  "regex_match s r = ([] \<in> set (rests r s))"

definition regex_search :: "string \<Rightarrow> regex \<Rightarrow> bool" where
  "regex_search s r = list_ex (\<lambda>t. rests r t \<noteq> []) (suffixes s)"

text \<open>
  \<^verbatim>\<open>\w\<close> is a letter, a digit or the underscore (of ASCII: the characters are bytes), so
  \<^verbatim>\<open>[\W_]\<close> is every character but the letters and digits.
\<close>

definition is_alnum :: "char \<Rightarrow> bool" where
  "is_alnum c = (let n = (of_char c :: nat) in
     (48 \<le> n \<and> n \<le> 57) \<or> (65 \<le> n \<and> n \<le> 90) \<or> (97 \<le> n \<and> n \<le> 122))"

definition is_word :: "char \<Rightarrow> bool" where
  "is_word c = (is_alnum c \<or> c = CHR ''_'')"

text \<open>\<^verbatim>\<open>regexInit\<close>: \<^verbatim>\<open>[\r\b]\<close> and \<^verbatim>\<open>^(.+)[\W_]( +)$\<close>.\<close>

definition controlCharsPattern :: regex where
  "controlCharsPattern = CharSet (\<lambda>c. c = CR \<or> c = BS)"

definition promptPattern :: regex where
  "promptPattern =
     Seq (CharSetPlus (\<lambda>c. True))
         (Seq (CharSet (\<lambda>c. \<not> is_word c \<or> c = CHR ''_'')) (CharSetPlus (\<lambda>c. c = CHR '' '')))"

subsection \<open>String utilities\<close>

text \<open>
  Modelled from the spec: \<^verbatim>\<open>string_utils::convertLineEndings\<close> is defined in core, outside the
  sources at hand. The spec has it normalise line endings to a canonical form, and the call
  asks for \<^verbatim>\<open>LineEndingPosix\<close>: a carriage return with its line feed, and a carriage return
  alone, become one line feed.
\<close>

fun convertLineEndings :: "string \<Rightarrow> string" where
  "convertLineEndings [] = []"
| "convertLineEndings (c # cs) =
     (if c = CR then
        (case cs of
           [] \<Rightarrow> [LF]
         | d # ds \<Rightarrow> if d = LF then LF # convertLineEndings ds else LF # convertLineEndings cs)
      else c # convertLineEndings cs)"

text \<open>
  The lines of a text: each ends with its line feed, but for a last line that has none.
\<close>

fun lines_of :: "string \<Rightarrow> string list" where
  "lines_of [] = []"
| "lines_of (c # cs) =
     (if c = LF then [LF] # lines_of cs
      else (case lines_of cs of [] \<Rightarrow> [[c]] | l # ls \<Rightarrow> (c # l) # ls))"

text \<open>
  Modelled from the spec: \<^verbatim>\<open>string_utils::trimLeadingLines\<close> is defined in core, outside the
  sources at hand. The spec has it retain only the last \<open>N\<close> lines.
\<close>

definition trimLeadingLines :: "int \<Rightarrow> string \<Rightarrow> string" where
  "trimLeadingLines maxLines s = concat (drop (length (lines_of s) - nat maxLines) (lines_of s))"

definition ends_with :: "string \<Rightarrow> string \<Rightarrow> bool" where
  "ends_with s t = (length t \<le> length s \<and> drop (length s - length t) s = t)"

text \<open>\<^verbatim>\<open>std::string::find_last_of\<close>: the last position that holds one of the characters.\<close>

definition find_last_of :: "string \<Rightarrow> string \<Rightarrow> nat option" where
  "find_last_of s cs =
     (case filter (\<lambda>i. s ! i \<in> set cs) (rev [0 ..< length s]) of [] \<Rightarrow> None | i # _ \<Rightarrow> Some i)"

subsection \<open>The outside of a console process\<close>

datatype error = InvalidArgument | SystemError string

text \<open>
  Modelled from the spec: \<^verbatim>\<open>core::system::ProcessOptions\<close> is declared in core, outside the
  sources at hand. These are the options the spec lists and the source reads or writes.
\<close>

record ProcessOptions =
  environment :: "(string \<times> string) list option"
  pseudoterminal :: "(int \<times> int) option"
  cols :: int
  rows :: int
  smartTerminal :: bool
  redirectStdErrToStdOut :: bool
  reportHasSubprocs :: bool
  terminateChildren :: bool

datatype LaunchRequest =
    runCommand string ProcessOptions
  | runProgram string "string list" ProcessOptions
  | runTerminal ProcessOptions

datatype ClientEvent =
    kConsoleProcessOutput string bool string
  | kConsoleProcessPrompt string string
  | kConsoleProcessExit string int
  | kTerminalSubprocs string bool

text \<open>
  What a console process reaches outside itself: the queue of client events (oldest first),
  the error log, the directory \<^verbatim>\<open>s_consoleProcPath\<close> (its regular files by name, and whether
  each file operation fails), the process supervisor (what it answers to a launch, and the
  launches asked of it), the source of fresh handles, the environment of the session with
  the two values of \<^verbatim>\<open>TERM\<close>, and the password manager that prompt handlers and exit slots are
  bound to.
\<close>

record World =
  clientEvents :: "ClientEvent list"
  errorLog :: "error list"
  ensureDirectory_error :: "error option"
  appendToFile_error :: "error option"
  readStringFromFile_error :: "error option"
  removeIfExists_error :: "error option"
  writeStringToFile_error :: "error option"
  files :: "string \<Rightarrow> string option"
  processSupervisor :: "LaunchRequest \<Rightarrow> error option"
  launches :: "LaunchRequest list"
  generateUuid :: "nat \<Rightarrow> string"
  uuidsGenerated :: nat
  systemEnvironment :: "(string \<times> string) list"
  kSmartTerm :: string
  kDumbTerm :: string
  passwordManager :: PasswordManager

definition LOG_ERROR :: "error \<Rightarrow> World \<Rightarrow> World" where
  "LOG_ERROR e w = w\<lparr>errorLog := errorLog w @ [e]\<rparr>"

definition enqueClientEvent :: "ClientEvent \<Rightarrow> World \<Rightarrow> World" where
  "enqueClientEvent ev w = w\<lparr>clientEvents := clientEvents w @ [ev]\<rparr>"

definition appendToFile :: "string \<Rightarrow> string \<Rightarrow> World \<Rightarrow> error option \<times> World" where
  "appendToFile name str w =
     (case appendToFile_error w of
        Some e \<Rightarrow> (Some e, w)
      | None \<Rightarrow> (None, w\<lparr>files := (files w)(name \<mapsto>
                          (case files w name of None \<Rightarrow> str | Some old \<Rightarrow> old @ str))\<rparr>))"

definition readStringFromFile :: "string \<Rightarrow> World \<Rightarrow> error + string" where
  "readStringFromFile name w =
     (case readStringFromFile_error w of
        Some e \<Rightarrow> Inl e
      | None \<Rightarrow> (case files w name of None \<Rightarrow> Inl (SystemError ''no such file'') | Some c \<Rightarrow> Inr c))"

definition removeIfExists :: "string \<Rightarrow> World \<Rightarrow> error option \<times> World" where
  "removeIfExists name w =
     (case removeIfExists_error w of
        Some e \<Rightarrow> (Some e, w)
      | None \<Rightarrow> (None, w\<lparr>files := (files w)(name := None)\<rparr>))"

definition writeStringToFile :: "string \<Rightarrow> string \<Rightarrow> World \<Rightarrow> error option \<times> World" where
  "writeStringToFile name str w =
     (case writeStringToFile_error w of
        Some e \<Rightarrow> (Some e, w)
      | None \<Rightarrow> (None, w\<lparr>files := (files w)(name \<mapsto> str)\<rparr>))"

text \<open>
  The operations on the running process that the supervisor hands to each callback: the
  calls made, oldest first, and the answer of each operation.
\<close>

datatype OpsCall = ptyInterrupt | writeToStdin string bool | ptySetSize int int | terminate

record ProcessOperations =
  opsCalls :: "OpsCall list"
  ptyInterrupt_error :: "error option"
  writeToStdin_error :: "error option"
  terminate_error :: "error option"

definition ops_call :: "OpsCall \<Rightarrow> ProcessOperations \<Rightarrow> ProcessOperations" where
  "ops_call c ops = ops\<lparr>opsCalls := opsCalls ops @ [c]\<rparr>"

subsection \<open>ConsoleProcessInfo\<close>

datatype InteractionMode = InteractionPossible | InteractionAlways | InteractionNever

text \<open>
  Modelled from the spec: the class \<^verbatim>\<open>ConsoleProcessInfo\<close> is defined in
  SessionConsoleProcessInfo.cpp, outside the sources at hand. The record holds the metadata
  the spec's data model gives it, with the interaction mode and the started flag that the
  source asks it for; \<open>kNoTerminal\<close> is the terminal sequence that means no terminal tab.
  Per the spec a handle is generated once, output of a modal console is appended to the
  embedded buffer and read back as it is, and a reconstructed entry has no live process.
\<close>

record ConsoleProcessInfo =
  handle' :: string
  caption' :: string
  title' :: string
  terminalSequence' :: int
  allowRestart' :: bool
  interactionMode' :: InteractionMode
  hasChildProcs' :: bool
  exitCode' :: "int option"
  maxOutputLines' :: int
  outputBuffer' :: string
  isStarted' :: bool

definition kNoTerminal :: int where
  "kNoTerminal = 0"

definition ensureHandle :: "ConsoleProcessInfo \<Rightarrow> World \<Rightarrow> ConsoleProcessInfo \<times> World" where
  "ensureHandle info w =
     (if handle' info = []
      then (info\<lparr>handle' := generateUuid w (uuidsGenerated w)\<rparr>,
            w\<lparr>uuidsGenerated := Suc (uuidsGenerated w)\<rparr>)
      else (info, w))"

definition ConsoleProcessInfo_appendToOutputBuffer ::
  "ConsoleProcessInfo \<Rightarrow> string \<Rightarrow> ConsoleProcessInfo" where
  "ConsoleProcessInfo_appendToOutputBuffer info str = info\<lparr>outputBuffer' := outputBuffer' info @ str\<rparr>"

definition ConsoleProcessInfo_bufferedOutput :: "ConsoleProcessInfo \<Rightarrow> string" where
  "ConsoleProcessInfo_bufferedOutput info = outputBuffer' info"

subsection \<open>ConsoleProcess\<close>

text \<open>
  A prompt handler and an exit slot are closures made by \<^verbatim>\<open>PasswordManager::attach\<close>: each is
  the manager's method with the handle (and the remember option) bound.
\<close>

datatype PromptHandler = bind_handlePrompt string bool

datatype ExitSlot = bind_onExit string

record ConsoleProcess =
  command' :: string
  program' :: string
  args' :: "string list"
  options' :: ProcessOptions
  procInfo' :: ConsoleProcessInfo
  interrupt' :: bool
  newCols' :: int
  newRows' :: int
  childProcsSent' :: bool
  inputQueue' :: "Input list"
  onPrompt' :: "PromptHandler option"
  onExit' :: "ExitSlot list"

definition handle :: "ConsoleProcess \<Rightarrow> string" where
  "handle cp = handle' (procInfo' cp)"

definition isStarted :: "ConsoleProcess \<Rightarrow> bool" where
  "isStarted cp = isStarted' (procInfo' cp)"

definition interactionMode :: "ConsoleProcess \<Rightarrow> InteractionMode" where
  "interactionMode cp = interactionMode' (procInfo' cp)"

text \<open>
  Modelled from the spec: a default-constructed \<^verbatim>\<open>ProcessOptions\<close> (declared in core), as the
  constructor from a \<^verbatim>\<open>ConsoleProcessInfo\<close> alone leaves \<^verbatim>\<open>options_\<close>: no flag set.
\<close>

definition ProcessOptions0 :: ProcessOptions where
  "ProcessOptions0 = \<lparr>environment = None, pseudoterminal = None, cols = 80, rows = 25,
     smartTerminal = False, redirectStdErrToStdOut = False, reportHasSubprocs = False,
     terminateChildren = False\<rparr>"

text \<open>Modelled from the spec: \<^verbatim>\<open>core::system::setenv\<close> on an environment block (defined in core).\<close>

definition setenv :: "(string \<times> string) list \<Rightarrow> string \<Rightarrow> string \<Rightarrow> (string \<times> string) list" where
  "setenv env name v =
     (if name \<in> set (map fst env)
      then map (\<lambda>(k, old). if k = name then (k, v) else (k, old)) env
      else env @ [(name, v)])"

text \<open>The constructor used by \<^verbatim>\<open>fromJson\<close>.\<close>

definition ConsoleProcess1 :: "ConsoleProcessInfo \<Rightarrow> ConsoleProcess" where
  "ConsoleProcess1 procInfo =
     \<lparr>command' = [], program' = [], args' = [], options' = ProcessOptions0,
      procInfo' = ConsoleProcessInfo_appendToOutputBuffer procInfo [LF],
      interrupt' = False, newCols' = - 1, newRows' = - 1, childProcsSent' = False,
      inputQueue' = [], onPrompt' = None, onExit' = []\<rparr>"

text \<open>\<^verbatim>\<open>commonInit\<close>, as compiled where \<^verbatim>\<open>_WIN32\<close> is not defined.\<close>

definition commonInit :: "ConsoleProcess \<Rightarrow> World \<Rightarrow> ConsoleProcess \<times> World" where
  "commonInit cp w =
     (let (info1, w1) = ensureHandle (procInfo' cp) w;
          o1 = (options' cp)\<lparr>redirectStdErrToStdOut := True\<rparr>;
          o2 = (if interactionMode' info1 \<noteq> InteractionNever
                then (let o3 = o1\<lparr>pseudoterminal := Some (cols o1, rows o1)\<rparr>;
                          env = (case environment o3 of None \<Rightarrow> systemEnvironment w1 | Some e \<Rightarrow> e)
                      in o3\<lparr>environment := Some (setenv env ''TERM''
                               (if smartTerminal o3 then kSmartTerm w1 else kDumbTerm w1))\<rparr>)
                else o1)
      in (cp\<lparr>options' := o2, procInfo' := ConsoleProcessInfo_appendToOutputBuffer info1 [LF]\<rparr>, w1))"

definition ConsoleProcess_command ::
  "string \<Rightarrow> ProcessOptions \<Rightarrow> ConsoleProcessInfo \<Rightarrow> World \<Rightarrow> ConsoleProcess \<times> World" where
  "ConsoleProcess_command command opts procInfo w =
     commonInit \<lparr>command' = command, program' = [], args' = [], options' = opts,
                 procInfo' = procInfo, interrupt' = False, newCols' = - 1, newRows' = - 1,
                 childProcsSent' = False, inputQueue' = [], onPrompt' = None, onExit' = []\<rparr> w"

definition ConsoleProcess_program ::
  "string \<Rightarrow> string list \<Rightarrow> ProcessOptions \<Rightarrow> ConsoleProcessInfo \<Rightarrow> World \<Rightarrow> ConsoleProcess \<times> World" where
  "ConsoleProcess_program program args opts procInfo w =
     commonInit \<lparr>command' = [], program' = program, args' = args, options' = opts,
                 procInfo' = procInfo, interrupt' = False, newCols' = - 1, newRows' = - 1,
                 childProcsSent' = False, inputQueue' = [], onPrompt' = None, onExit' = []\<rparr> w"

definition bufferedOutput :: "ConsoleProcess \<Rightarrow> string" where
  "bufferedOutput cp =
     (if smartTerminal (options' cp) then [] else ConsoleProcessInfo_bufferedOutput (procInfo' cp))"

definition setPromptHandler :: "ConsoleProcess \<Rightarrow> PromptHandler \<Rightarrow> ConsoleProcess" where
  "setPromptHandler cp h = cp\<lparr>onPrompt' := Some h\<rparr>"

text \<open>
  \<^verbatim>\<open>start\<close>: the launch is asked of the supervisor, which answers with an error or none; the
  callbacks it is given are the methods below.
\<close>

definition start :: "ConsoleProcess \<Rightarrow> World \<Rightarrow> error option \<times> ConsoleProcess \<times> World" where
  "start cp w =
     (if isStarted' (procInfo' cp) then (None, cp, w)
      else
        (let req = (if command' cp \<noteq> [] then runCommand (command' cp) (options' cp)
                    else if program' cp \<noteq> [] then runProgram (program' cp) (args' cp) (options' cp)
                    else runTerminal (options' cp));
             err = processSupervisor w req;
             w1 = w\<lparr>launches := launches w @ [req]\<rparr>;
             cp1 = (if err = None then cp\<lparr>procInfo' := (procInfo' cp)\<lparr>isStarted' := True\<rparr>\<rparr> else cp)
         in (err, cp1, w1)))"

definition enqueInput :: "ConsoleProcess \<Rightarrow> Input \<Rightarrow> ConsoleProcess" where
  "enqueInput cp input = cp\<lparr>inputQueue' := inputQueue' cp @ [input]\<rparr>"

definition interrupt :: "ConsoleProcess \<Rightarrow> ConsoleProcess" where
  "interrupt cp = cp\<lparr>interrupt' := True\<rparr>"

definition resize :: "ConsoleProcess \<Rightarrow> int \<Rightarrow> int \<Rightarrow> ConsoleProcess" where
  "resize cp c r = cp\<lparr>newCols' := c, newRows' := r\<rparr>"

text \<open>The log file of a process is named by its handle, in \<^verbatim>\<open>s_consoleProcPath\<close>.\<close>

definition getLogFilePath :: "ConsoleProcess \<Rightarrow> World \<Rightarrow> error + string" where
  "getLogFilePath cp w =
     (case ensureDirectory_error w of Some e \<Rightarrow> Inl e | None \<Rightarrow> Inr (handle' (procInfo' cp)))"

definition deleteLogFile :: "ConsoleProcess \<Rightarrow> World \<Rightarrow> World" where
  "deleteLogFile cp w =
     (case getLogFilePath cp w of
        Inl e \<Rightarrow> LOG_ERROR e w
      | Inr log \<Rightarrow>
          (case removeIfExists log w of
             (Some e, w1) \<Rightarrow> LOG_ERROR e w1
           | (None, w1) \<Rightarrow> w1))"

definition getSavedBuffer :: "ConsoleProcess \<Rightarrow> World \<Rightarrow> string \<times> World" where
  "getSavedBuffer cp w =
     (case getLogFilePath cp w of
        Inl e \<Rightarrow> ([], LOG_ERROR e w)
      | Inr log \<Rightarrow>
          (if files w log = None then ([], w)
           else (case readStringFromFile log w of
                   Inl e \<Rightarrow> ([], LOG_ERROR e w)
                 | Inr content \<Rightarrow> (content, w))))"

definition appendToOutputBuffer :: "ConsoleProcess \<Rightarrow> World \<Rightarrow> string \<Rightarrow> ConsoleProcess \<times> World" where
  "appendToOutputBuffer cp w str =
     (if terminalSequence' (procInfo' cp) = kNoTerminal
      then (cp\<lparr>procInfo' := ConsoleProcessInfo_appendToOutputBuffer (procInfo' cp) str\<rparr>, w)
      else
        (case getLogFilePath cp w of
           Inl e \<Rightarrow> (cp, LOG_ERROR e w)
         | Inr log \<Rightarrow>
             (case appendToFile log str w of
                (Some e, w1) \<Rightarrow> (cp, LOG_ERROR e w1)
              | (None, w1) \<Rightarrow> (cp, w1))))"

definition enqueOutputEvent :: "ConsoleProcess \<Rightarrow> World \<Rightarrow> string \<Rightarrow> bool \<Rightarrow> ConsoleProcess \<times> World" where
  "enqueOutputEvent cp w output err =
     (let (cp1, w1) = appendToOutputBuffer cp w output;
          trimmedOutput = trimLeadingLines (maxOutputLines' (procInfo' cp1)) output
      in (cp1, enqueClientEvent (kConsoleProcessOutput (handle cp1) err trimmedOutput) w1))"

text \<open>
  One turn of the loop of \<^verbatim>\<open>onContinue\<close>, for the input popped off the queue (as compiled
  where \<^verbatim>\<open>_WIN32\<close> is not defined: the text is written as it is).
\<close>

definition onContinue_input ::
  "ConsoleProcess \<Rightarrow> World \<Rightarrow> ProcessOperations \<Rightarrow> Input
     \<Rightarrow> ConsoleProcess \<times> World \<times> ProcessOperations" where
  "onContinue_input cp w ops input =
     (if Input_interrupt input then
        (let ops1 = ops_call ptyInterrupt ops;
             w1 = (case ptyInterrupt_error ops of Some e \<Rightarrow> LOG_ERROR e w | None \<Rightarrow> w)
         in if Input_echoInput input
            then (let (cp2, w2) = appendToOutputBuffer cp w1 ''^C'' in (cp2, w2, ops1))
            else (cp, w1, ops1))
      else
        (let inputText = Input_text input;
             ops1 = ops_call (writeToStdin inputText False) ops;
             w1 = (case writeToStdin_error ops of Some e \<Rightarrow> LOG_ERROR e w | None \<Rightarrow> w)
         in if \<not> smartTerminal (options' cp)
            then (let (cp2, w2) = (if Input_echoInput input
                                   then appendToOutputBuffer cp w1 inputText
                                   else appendToOutputBuffer cp w1 [LF])
                  in (cp2, w2, ops1))
            else (cp, w1, ops1)))"

lemma appendToOutputBuffer_inputQueue:
  "inputQueue' (fst (appendToOutputBuffer cp w str)) = inputQueue' cp"
  by (simp add: appendToOutputBuffer_def split: sum.splits option.splits prod.splits)

lemma onContinue_input_inputQueue:
  "inputQueue' (fst (onContinue_input cp w ops input)) = inputQueue' cp"
  using appendToOutputBuffer_inputQueue
  by (simp add: onContinue_input_def Let_def split_beta)

text \<open>The loop of \<^verbatim>\<open>onContinue\<close>: while the queue is not empty, pop its front and process it.\<close>

function onContinue_loop ::
  "ConsoleProcess \<Rightarrow> World \<Rightarrow> ProcessOperations \<Rightarrow> ConsoleProcess \<times> World \<times> ProcessOperations" where
  "onContinue_loop cp w ops =
     (case inputQueue' cp of
        [] \<Rightarrow> (cp, w, ops)
      | input # rest \<Rightarrow>
          (case onContinue_input (cp\<lparr>inputQueue' := rest\<rparr>) w ops input of
             (cp1, w1, ops1) \<Rightarrow> onContinue_loop cp1 w1 ops1))"
  by pat_completeness auto
termination
proof (relation "measure (\<lambda>(cp, w, ops). length (inputQueue' cp))", goal_cases)
  case 1
  show ?case by simp
next
  case (2 cp w ops input rest)
  have "inputQueue' (fst (onContinue_input (cp\<lparr>inputQueue' := rest\<rparr>) w ops input)) = rest"
    by (simp add: onContinue_input_inputQueue)
  with 2 show ?case by (simp add: split_beta)
qed

definition onContinue ::
  "ConsoleProcess \<Rightarrow> World \<Rightarrow> ProcessOperations \<Rightarrow> bool \<times> ConsoleProcess \<times> World \<times> ProcessOperations" where
  "onContinue cp w ops =
     (if interrupt' cp then (False, cp, w, ops)
      else
        (let (cp1, w1, ops1) = onContinue_loop cp w ops
         in if newCols' cp1 \<noteq> - 1 \<and> newRows' cp1 \<noteq> - 1
            then (True, cp1\<lparr>newCols' := - 1, newRows' := - 1\<rparr>, w1,
                  ops_call (ptySetSize (newCols' cp1) (newRows' cp1)) ops1)
            else (True, cp1, w1, ops1)))"

definition handleConsolePrompt ::
  "ConsoleProcess \<Rightarrow> World \<Rightarrow> ProcessOperations \<Rightarrow> string
     \<Rightarrow> ConsoleProcess \<times> World \<times> ProcessOperations" where
  "handleConsolePrompt cp w ops p =
     (let promptEvent = (\<lambda>w'. (cp, enqueClientEvent (kConsoleProcessPrompt (handle cp) p) w', ops))
      in case onPrompt' cp of
           None \<Rightarrow> promptEvent w
         | Some (bind_handlePrompt h showRememberOption) \<Rightarrow>
             (case handlePrompt (passwordManager w) h p showRememberOption Input0 of
                ((handled, input), pm1) \<Rightarrow>
                  (let w1 = w\<lparr>passwordManager := pm1\<rparr>
                   in if handled then
                        (if \<not> Input_empty input then (enqueInput cp input, w1, ops)
                         else (cp,
                               (case terminate_error ops of Some e \<Rightarrow> LOG_ERROR e w1 | None \<Rightarrow> w1),
                               ops_call terminate ops))
                      else promptEvent w1)))"

definition maybeConsolePrompt ::
  "ConsoleProcess \<Rightarrow> World \<Rightarrow> ProcessOperations \<Rightarrow> string
     \<Rightarrow> ConsoleProcess \<times> World \<times> ProcessOperations" where
  "maybeConsolePrompt cp w ops output =
     (let (cp1, w1) = (if regex_search output controlCharsPattern
                       then enqueOutputEvent cp w output False
                       else (cp, w))
      in if \<not> regex_match output promptPattern
         then (let (cp2, w2) = enqueOutputEvent cp1 w1 output False in (cp2, w2, ops))
         else handleConsolePrompt cp1 w1 ops output)"

definition onStdout ::
  "ConsoleProcess \<Rightarrow> World \<Rightarrow> ProcessOperations \<Rightarrow> string
     \<Rightarrow> ConsoleProcess \<times> World \<times> ProcessOperations" where
  "onStdout cp w ops output =
     (if smartTerminal (options' cp)
      then (let (cp1, w1) = enqueOutputEvent cp w output False in (cp1, w1, ops))
      else
        (let posixOutput = convertLineEndings output
         in if ends_with posixOutput [LF]
            then (let (cp1, w1) = enqueOutputEvent cp w posixOutput False in (cp1, w1, ops))
            else
              (case find_last_of posixOutput [LF, FF] of
                 Some lastLoc \<Rightarrow>
                   (let (cp1, w1) = enqueOutputEvent cp w (take lastLoc posixOutput) False
                    in maybeConsolePrompt cp1 w1 ops (drop (lastLoc + 1) posixOutput))
               | None \<Rightarrow> maybeConsolePrompt cp w ops posixOutput)))"

definition run_slot :: "int \<Rightarrow> ExitSlot \<Rightarrow> World \<Rightarrow> World" where
  "run_slot exitCode slot w =
     (case slot of bind_onExit h \<Rightarrow>
        w\<lparr>passwordManager := PasswordManager_onExit (passwordManager w) h exitCode\<rparr>)"

definition onExit :: "ConsoleProcess \<Rightarrow> World \<Rightarrow> int \<Rightarrow> ConsoleProcess \<times> World" where
  "onExit cp w exitCode =
     (let cp1 = cp\<lparr>procInfo' := (procInfo' cp)\<lparr>exitCode' := Some exitCode\<rparr>\<rparr>;
          w1 = enqueClientEvent (kConsoleProcessExit (handle cp1) exitCode) w
      in (cp1, fold (run_slot exitCode) (onExit' cp1) w1))"

definition onHasSubprocs :: "ConsoleProcess \<Rightarrow> World \<Rightarrow> bool \<Rightarrow> ConsoleProcess \<times> World" where
  "onHasSubprocs cp w hasSubprocs =
     (if hasSubprocs \<noteq> hasChildProcs' (procInfo' cp) \<or> \<not> childProcsSent' cp
      then (let cp1 = cp\<lparr>procInfo' := (procInfo' cp)\<lparr>hasChildProcs' := hasSubprocs\<rparr>\<rparr>
            in (cp1\<lparr>childProcsSent' := True\<rparr>,
                enqueClientEvent (kTerminalSubprocs (handle cp1) (hasChildProcs' (procInfo' cp1))) w))
      else (cp, w))"

text \<open>\<^verbatim>\<open>PasswordManager::attach\<close>: the prompt handler and the exit slot of the process.\<close>

definition attach :: "ConsoleProcess \<Rightarrow> bool \<Rightarrow> ConsoleProcess" where
  "attach pCP showRememberOption =
     (let cp1 = setPromptHandler pCP (bind_handlePrompt (handle pCP) showRememberOption)
      in cp1\<lparr>onExit' := onExit' cp1 @ [bind_onExit (handle pCP)]\<rparr>)"

subsection \<open>The table of console processes and its persisted index\<close>

text \<open>
  JSON values, as \<^verbatim>\<open>core::json\<close> has them. Writing a value as text and parsing text are the
  generic JSON utilities, outside this file: they are taken as given below.
\<close>

datatype json =
    jnull | jbool bool | jint int | jstr string | jarray "json list"
  | jobject "(string \<times> json) list"

record Json =
  json_write :: "json \<Rightarrow> string"
  json_parse :: "string \<Rightarrow> json option"

definition get_str :: "(string \<times> json) list \<Rightarrow> string \<Rightarrow> string option" where
  "get_str fs k = (case map_of fs k of Some (jstr s) \<Rightarrow> Some s | _ \<Rightarrow> None)"

definition get_bool :: "(string \<times> json) list \<Rightarrow> string \<Rightarrow> bool option" where
  "get_bool fs k = (case map_of fs k of Some (jbool b) \<Rightarrow> Some b | _ \<Rightarrow> None)"

definition get_int :: "(string \<times> json) list \<Rightarrow> string \<Rightarrow> int option" where
  "get_int fs k = (case map_of fs k of Some (jint i) \<Rightarrow> Some i | _ \<Rightarrow> None)"

definition get_int_or_null :: "(string \<times> json) list \<Rightarrow> string \<Rightarrow> int option option" where
  "get_int_or_null fs k =
     (case map_of fs k of Some (jint i) \<Rightarrow> Some (Some i) | Some jnull \<Rightarrow> Some None | _ \<Rightarrow> None)"

definition InteractionMode_int :: "InteractionMode \<Rightarrow> int" where
  "InteractionMode_int m =
     (case m of InteractionPossible \<Rightarrow> 0 | InteractionAlways \<Rightarrow> 1 | InteractionNever \<Rightarrow> 2)"

definition InteractionMode_of_int :: "int \<Rightarrow> InteractionMode option" where
  "InteractionMode_of_int i =
     (if i = 0 then Some InteractionPossible else if i = 1 then Some InteractionAlways
      else if i = 2 then Some InteractionNever else None)"

text \<open>
  Modelled from the spec: \<^verbatim>\<open>ConsoleProcessInfo::toJson\<close> and \<^verbatim>\<open>ConsoleProcessInfo::fromJson\<close>
  are defined in SessionConsoleProcessInfo.cpp, outside the sources at hand. Per the spec the
  JSON object of a session holds the handle, allowRestart, hasChildProcs, the exit code if
  any, the terminal identity, caption and title and, for a modal session, the embedded
  output text; live-process state is not persisted, and an entry read back has no live
  process. The interaction mode and the maximum of output lines are metadata too. Reading
  an object that lacks a field, or has it at another type, fails (\<open>None\<close>).
\<close>

definition toJson :: "ConsoleProcessInfo \<Rightarrow> json" where
  "toJson info = jobject
     [(''handle'', jstr (handle' info)),
      (''caption'', jstr (caption' info)),
      (''title'', jstr (title' info)),
      (''terminal_sequence'', jint (terminalSequence' info)),
      (''allow_restart'', jbool (allowRestart' info)),
      (''interaction_mode'', jint (InteractionMode_int (interactionMode' info))),
      (''child_procs'', jbool (hasChildProcs' info)),
      (''exit_code'', (case exitCode' info of None \<Rightarrow> jnull | Some c \<Rightarrow> jint c)),
      (''max_output_lines'', jint (maxOutputLines' info)),
      (''buffered_output'', jstr (if terminalSequence' info = kNoTerminal
                                   then ConsoleProcessInfo_bufferedOutput info else []))]"

definition fromJson :: "json \<Rightarrow> ConsoleProcessInfo option" where
  "fromJson obj =
     (case obj of
        jobject fs \<Rightarrow>
          do {
            h \<leftarrow> get_str fs ''handle'';
            c \<leftarrow> get_str fs ''caption'';
            t \<leftarrow> get_str fs ''title'';
            ts \<leftarrow> get_int fs ''terminal_sequence'';
            ar \<leftarrow> get_bool fs ''allow_restart'';
            mi \<leftarrow> get_int fs ''interaction_mode'';
            m \<leftarrow> InteractionMode_of_int mi;
            cp \<leftarrow> get_bool fs ''child_procs'';
            ec \<leftarrow> get_int_or_null fs ''exit_code'';
            ml \<leftarrow> get_int fs ''max_output_lines'';
            b \<leftarrow> get_str fs ''buffered_output'';
            Some \<lparr>handle' = h, caption' = c, title' = t, terminalSequence' = ts,
                  allowRestart' = ar, interactionMode' = m, hasChildProcs' = cp,
                  exitCode' = ec, maxOutputLines' = ml, outputBuffer' = b, isStarted' = False\<rparr>
          }
      | _ \<Rightarrow> None)"

definition ConsoleProcess_toJson :: "ConsoleProcess \<Rightarrow> json" where
  "ConsoleProcess_toJson cp = toJson (procInfo' cp)"

definition ConsoleProcess_fromJson :: "json \<Rightarrow> ConsoleProcess option" where
  "ConsoleProcess_fromJson obj = map_option ConsoleProcess1 (fromJson obj)"

text \<open>
  \<^verbatim>\<open>ProcTable\<close> is a \<^verbatim>\<open>std::map\<close> from handle to shared pointer: a list of pairs in the order
  of the keys, each key once. A shared pointer is the address of its object in the heap of
  the registry; \<^verbatim>\<open>new\<close> takes the next address. \<open>kConsoleIndex\<close> names the index file.
\<close>

type_synonym ProcTable = "(string \<times> nat) list"

record Registry =
  s_procs :: ProcTable
  heap :: "ConsoleProcess list"

definition kConsoleIndex :: string where
  "kConsoleIndex = ''INDEX''"

fun ProcTable_assign :: "string \<Rightarrow> nat \<Rightarrow> ProcTable \<Rightarrow> ProcTable" where
  "ProcTable_assign k v [] = [(k, v)]"
| "ProcTable_assign k v ((k', v') # t) =
     (if k = k' then (k, v) # t
      else if k < k' then (k, v) # (k', v') # t
      else (k', v') # ProcTable_assign k v t)"

definition ProcTable_erase :: "string \<Rightarrow> ProcTable \<Rightarrow> ProcTable" where
  "ProcTable_erase k t = filter (\<lambda>(k', v). k' \<noteq> k) t"

definition new :: "ConsoleProcess \<Rightarrow> Registry \<Rightarrow> nat \<times> Registry" where
  "new cp reg = (length (heap reg), reg\<lparr>heap := heap reg @ [cp]\<rparr>)"

text \<open>
  \<^verbatim>\<open>s_procs.find\<close> with the object the pointer found leads to; every pointer in the table is
  the address of an allocated object.
\<close>

definition find_proc :: "Registry \<Rightarrow> string \<Rightarrow> (nat \<times> ConsoleProcess) option" where
  "find_proc reg h =
     (case map_of (s_procs reg) h of
        None \<Rightarrow> None
      | Some a \<Rightarrow> if a < length (heap reg) then Some (a, heap reg ! a) else None)"

definition table_procs :: "Registry \<Rightarrow> ConsoleProcess list" where
  "table_procs reg = List.map_filter (\<lambda>(k, a). map_option snd (find_proc reg k)) (s_procs reg)"

text \<open>
  \<^verbatim>\<open>serializeConsoleProcs\<close>: the loop goes over the table in the order of its keys and, for
  each entry, calls \<^verbatim>\<open>onSuspend\<close> on the session the pointer leads to (when suspending) and
  then appends the JSON of that session. What \<^verbatim>\<open>onSuspend\<close> does to a \<^verbatim>\<open>ConsoleProcessInfo\<close>
  is outside the sources at hand and the spec is silent on it: it is the parameter
  \<open>infoOnSuspend\<close>. Sessions of the heap that the table does not hold are not touched.
\<close>

fun serialize_loop ::
  "(ConsoleProcessInfo \<Rightarrow> ConsoleProcessInfo) \<Rightarrow> bool \<Rightarrow> ProcTable \<Rightarrow> Registry
     \<Rightarrow> json list \<times> Registry" where
  "serialize_loop infoOnSuspend suspend [] reg = ([], reg)"
| "serialize_loop infoOnSuspend suspend ((k, a) # t) reg =
     (if a < length (heap reg) then
        (let cp = heap reg ! a;
             cp1 = (if suspend then cp\<lparr>procInfo' := infoOnSuspend (procInfo' cp)\<rparr> else cp);
             reg1 = (if suspend then reg\<lparr>heap := (heap reg)[a := cp1]\<rparr> else reg)
         in case serialize_loop infoOnSuspend suspend t reg1 of
              (array, reg2) \<Rightarrow> (ConsoleProcess_toJson cp1 # array, reg2))
      else serialize_loop infoOnSuspend suspend t reg)"

definition serializeConsoleProcs ::
  "Json \<Rightarrow> (ConsoleProcessInfo \<Rightarrow> ConsoleProcessInfo) \<Rightarrow> bool \<Rightarrow> Registry \<Rightarrow> string \<times> Registry" where
  "serializeConsoleProcs J infoOnSuspend suspend reg =
     (case serialize_loop infoOnSuspend suspend (s_procs reg) reg of
        (array, reg1) \<Rightarrow> (json_write J (jarray array), reg1))"

text \<open>
  The loop of \<^verbatim>\<open>deserializeConsoleProcs\<close>. Reading an element that is not an object of the
  expected shape throws in the JSON library; the sessions of the elements before it are in
  the table by then. The result is the error, if any, with the table as the loop leaves it.
\<close>

fun deserialize_loop :: "json list \<Rightarrow> Registry \<Rightarrow> error option \<times> Registry" where
  "deserialize_loop [] reg = (None, reg)"
| "deserialize_loop (obj # procs) reg =
     (case ConsoleProcess_fromJson obj of
        None \<Rightarrow> (Some (SystemError ''bad json value''), reg)
      | Some cp \<Rightarrow>
          (let (proc, reg1) = new cp reg
           in deserialize_loop procs (reg1\<lparr>s_procs := ProcTable_assign (handle cp) proc (s_procs reg1)\<rparr>)))"

definition LOG_WARNING_MESSAGE :: "string \<Rightarrow> World \<Rightarrow> World" where
  "LOG_WARNING_MESSAGE msg w = w\<lparr>errorLog := errorLog w @ [SystemError msg]\<rparr>"

text \<open>
  \<^verbatim>\<open>deserializeConsoleProcs\<close>: an empty text changes nothing, a text that does not parse is
  logged, and a parsed value that is not an array throws at \<^verbatim>\<open>get_array\<close>, before the loop.
\<close>

definition deserializeConsoleProcs ::
  "Json \<Rightarrow> string \<Rightarrow> Registry \<Rightarrow> World \<Rightarrow> error option \<times> Registry \<times> World" where
  "deserializeConsoleProcs J jsonStr reg w =
     (if jsonStr = [] then (None, reg, w)
      else
        (case json_parse J jsonStr of
           None \<Rightarrow> (None, reg, LOG_WARNING_MESSAGE (''invalid console process json: '' @ jsonStr) w)
         | Some (jarray procs) \<Rightarrow>
             (case deserialize_loop procs reg of (e, reg1) \<Rightarrow> (e, reg1, w))
         | Some _ \<Rightarrow> (Some (SystemError ''bad json value''), reg, w)))"

definition saveConsoleProcesses ::
  "Json \<Rightarrow> (ConsoleProcessInfo \<Rightarrow> ConsoleProcessInfo) \<Rightarrow> bool \<Rightarrow> Registry \<Rightarrow> World \<Rightarrow> World" where
  "saveConsoleProcesses J infoOnSuspend terminatedNormally reg w =
     (if \<not> terminatedNormally then w
      else
        (case writeStringToFile kConsoleIndex
                (fst (serializeConsoleProcs J infoOnSuspend False reg)) w of
           (Some e, w1) \<Rightarrow> LOG_ERROR e w1
         | (None, w1) \<Rightarrow> w1))"

text \<open>
  The two overloads of \<^verbatim>\<open>ConsoleProcess::create\<close>, and \<^verbatim>\<open>createTerminalProcess\<close>. Where the
  latter creates a process with a previously used handle it does what \<^verbatim>\<open>create\<close> does for
  the empty command, statement for statement, so both of its creating branches are
  \<open>create\<close> here.
\<close>

definition create ::
  "Json \<Rightarrow> (ConsoleProcessInfo \<Rightarrow> ConsoleProcessInfo) \<Rightarrow> string \<Rightarrow> ProcessOptions
     \<Rightarrow> ConsoleProcessInfo \<Rightarrow> Registry \<Rightarrow> World \<Rightarrow> nat \<times> Registry \<times> World" where
  "create J infoOnSuspend command opts procInfo reg w =
     (let opts1 = opts\<lparr>terminateChildren := True\<rparr>;
          (cp, w1) = ConsoleProcess_command command opts1 procInfo w;
          (ptrProc, reg1) = new cp reg;
          reg2 = reg1\<lparr>s_procs := ProcTable_assign (handle cp) ptrProc (s_procs reg1)\<rparr>
      in (ptrProc, reg2, saveConsoleProcesses J infoOnSuspend True reg2 w1))"

definition create_program ::
  "Json \<Rightarrow> (ConsoleProcessInfo \<Rightarrow> ConsoleProcessInfo) \<Rightarrow> string \<Rightarrow> string list \<Rightarrow> ProcessOptions
     \<Rightarrow> ConsoleProcessInfo \<Rightarrow> Registry \<Rightarrow> World \<Rightarrow> nat \<times> Registry \<times> World" where
  "create_program J infoOnSuspend program args opts procInfo reg w =
     (let opts1 = opts\<lparr>terminateChildren := True\<rparr>;
          (cp, w1) = ConsoleProcess_program program args opts1 procInfo w;
          (ptrProc, reg1) = new cp reg;
          reg2 = reg1\<lparr>s_procs := ProcTable_assign (handle cp) ptrProc (s_procs reg1)\<rparr>
      in (ptrProc, reg2, saveConsoleProcesses J infoOnSuspend True reg2 w1))"

definition createTerminalProcess ::
  "Json \<Rightarrow> (ConsoleProcessInfo \<Rightarrow> ConsoleProcessInfo) \<Rightarrow> ProcessOptions
     \<Rightarrow> ConsoleProcessInfo \<Rightarrow> Registry \<Rightarrow> World \<Rightarrow> nat \<times> Registry \<times> World" where
  "createTerminalProcess J infoOnSuspend opts procInfo reg w =
     (let command = [] in
      if allowRestart' procInfo \<and> handle' procInfo \<noteq> [] then
        (let pos = find_proc reg (handle' procInfo)
         in case pos of
              Some (a, cp) \<Rightarrow>
                if isStarted cp
                then (a, reg\<lparr>heap := (heap reg)[a := resize cp 25 5]\<rparr>, w)
                else create J infoOnSuspend command opts procInfo reg w
            | None \<Rightarrow> create J infoOnSuspend command opts procInfo reg w)
      else create J infoOnSuspend command opts procInfo reg w)"

text \<open>
  The remote calls, each with the handle already read from its request: an unknown handle
  is \<^verbatim>\<open>invalid_argument\<close>.
\<close>

definition procStart :: "string \<Rightarrow> Registry \<Rightarrow> World \<Rightarrow> error option \<times> Registry \<times> World" where
  "procStart h reg w =
     (case find_proc reg h of
        Some (a, cp) \<Rightarrow>
          (case start cp w of (err, cp1, w1) \<Rightarrow> (err, reg\<lparr>heap := (heap reg)[a := cp1]\<rparr>, w1))
      | None \<Rightarrow> (Some InvalidArgument, reg, w))"

definition procInterrupt :: "string \<Rightarrow> Registry \<Rightarrow> error option \<times> Registry" where
  "procInterrupt h reg =
     (case find_proc reg h of
        Some (a, cp) \<Rightarrow> (None, reg\<lparr>heap := (heap reg)[a := interrupt cp]\<rparr>)
      | None \<Rightarrow> (Some InvalidArgument, reg))"

definition procEraseBuffer :: "string \<Rightarrow> Registry \<Rightarrow> World \<Rightarrow> error option \<times> World" where
  "procEraseBuffer h reg w =
     (case find_proc reg h of
        None \<Rightarrow> (Some InvalidArgument, w)
      | Some (a, cp) \<Rightarrow> (None, deleteLogFile cp w))"

definition procGetBuffer :: "string \<Rightarrow> Registry \<Rightarrow> World \<Rightarrow> (error + string) \<times> World" where
  "procGetBuffer h reg w =
     (case find_proc reg h of
        None \<Rightarrow> (Inl InvalidArgument, w)
      | Some (a, cp) \<Rightarrow> (case getSavedBuffer cp w of (content, w1) \<Rightarrow> (Inr content, w1)))"

subsection \<open>Metadata written and read back\<close>

text \<open>
  What \<open>fromJson\<close> makes of the \<open>toJson\<close> of a session's metadata: the same record with no
  live process, and with the embedded output only if the session is a modal console.
\<close>

definition persisted :: "ConsoleProcessInfo \<Rightarrow> ConsoleProcessInfo" where
  "persisted info = info\<lparr>outputBuffer' := (if terminalSequence' info = kNoTerminal
                                              then ConsoleProcessInfo_bufferedOutput info else []),
                          isStarted' := False\<rparr>"

subsection \<open>Sequences of appends\<close>

text \<open>The texts \<open>strs\<close> appended to the output buffer of a process, one call after the other.\<close>

fun appendAll :: "ConsoleProcess \<Rightarrow> World \<Rightarrow> string list \<Rightarrow> ConsoleProcess \<times> World" where
  "appendAll cp w [] = (cp, w)"
| "appendAll cp w (str # strs) =
     (case appendToOutputBuffer cp w str of (cp1, w1) \<Rightarrow> appendAll cp1 w1 strs)"

text \<open>The text of a file of the directory, empty when there is no such file.\<close>

definition stored :: "World \<Rightarrow> string \<Rightarrow> string" where
  "stored w name = (case files w name of None \<Rightarrow> [] | Some c \<Rightarrow> c)"

subsection \<open>Sample values\<close>

definition pw :: "string \<Rightarrow> string \<Rightarrow> string \<Rightarrow> bool \<Rightarrow> CachedPassword" where
  "pw h p w r = \<lparr>cpHandle = h, prompt = p, password = w, remember = r\<rparr>"

definition pmSample :: PasswordManager where
  "pmSample = \<lparr>promptPattern' = (\<lambda>p. p = ''Password: '' \<or> p = ''Passphrase: '' \<or> p = ''PIN: ''),
               promptHandler' = (\<lambda>p r. Some (''typed'', r)),
               passwords' = [pw ''A'' ''Password: '' ''one'' True,
                             pw ''A'' ''Passphrase: '' ''two'' False,
                             pw ''B'' ''Passphrase: '' ''three'' False],
               promptHandlerCalls = []\<rparr>"

definition infoSample :: ConsoleProcessInfo where
  "infoSample = \<lparr>handle' = ''h1'', caption' = ''Push'', title' = ''git push'',
     terminalSequence' = kNoTerminal, allowRestart' = True, interactionMode' = InteractionAlways,
     hasChildProcs' = False, exitCode' = None, maxOutputLines' = 1000, outputBuffer' = [],
     isStarted' = True\<rparr>"

definition cpSample :: ConsoleProcess where
  "cpSample = \<lparr>command' = ''git push'', program' = [], args' = [], options' = ProcessOptions0,
     procInfo' = infoSample, interrupt' = False, newCols' = - 1, newRows' = - 1,
     childProcsSent' = False, inputQueue' = [], onPrompt' = None, onExit' = []\<rparr>"

definition worldSample :: World where
  "worldSample = \<lparr>clientEvents = [], errorLog = [], ensureDirectory_error = None,
     appendToFile_error = None, readStringFromFile_error = None, removeIfExists_error = None,
     writeStringToFile_error = None, files = (\<lambda>name. None),
     processSupervisor = (\<lambda>req. None), launches = [],
     generateUuid = (\<lambda>n. replicate (Suc n) CHR ''u''), uuidsGenerated = 0,
     systemEnvironment = [], kSmartTerm = ''xterm-256color'', kDumbTerm = ''dumb'',
     passwordManager = pmSample\<rparr>"

definition opsSample :: ProcessOperations where
  "opsSample = \<lparr>opsCalls = [], ptyInterrupt_error = None, writeToStdin_error = None,
     terminate_error = None\<rparr>"

definition cpTab :: ConsoleProcess where
  "cpTab = cpSample\<lparr>command' := [],
     procInfo' := infoSample\<lparr>terminalSequence' := 1, maxOutputLines' := 2\<rparr>\<rparr>"

definition cpSmart :: ConsoleProcess where
  "cpSmart = cpTab\<lparr>options' := ProcessOptions0\<lparr>smartTerminal := True\<rparr>\<rparr>"

definition cpCreated :: ConsoleProcess where
  "cpCreated = cpSample\<lparr>procInfo' := infoSample\<lparr>handle' := ''h0'', isStarted' := False\<rparr>\<rparr>"

definition worldFailing :: World where
  "worldFailing = worldSample\<lparr>processSupervisor := (\<lambda>req. Some (SystemError ''no such file''))\<rparr>"

definition threeLines :: string where
  "threeLines = ''a'' @ [LF] @ ''b'' @ [CR, LF] @ ''Password: ''"

definition cpDone :: ConsoleProcess where
  "cpDone = cpSample\<lparr>procInfo' := infoSample\<lparr>outputBuffer' := ''done'' @ [LF]\<rparr>\<rparr>"

definition regSample :: Registry where
  "regSample = \<lparr>s_procs = [(''h1'', 0)], heap = [cpDone]\<rparr>"

definition regTab :: Registry where
  "regTab = \<lparr>s_procs = [(''h0'', 0), (''h1'', 1)], heap = [cpCreated, cpTab]\<rparr>"

definition jsonSample :: Json where
  "jsonSample = \<lparr>json_write = (\<lambda>v. ''[{}, {}]''),
     json_parse = (\<lambda>s. if s = ''[{}, {}]''
                        then Some (jarray [ConsoleProcess_toJson cpCreated, ConsoleProcess_toJson cpTab])
                        else None)\<rparr>"

definition cpSmartModal :: ConsoleProcess where
  "cpSmartModal = cpSample\<lparr>options' := ProcessOptions0\<lparr>smartTerminal := True\<rparr>,
     procInfo' := infoSample\<lparr>maxOutputLines' := 2\<rparr>\<rparr>"

definition interruptInput :: Input where
  "interruptInput = \<lparr>Input_interrupt = True, Input_text = [], Input_echoInput = True\<rparr>"

definition cpTabQ :: ConsoleProcess where
  "cpTabQ = cpTab\<lparr>inputQueue' := [interruptInput]\<rparr>"

definition cpSampleQ :: ConsoleProcess where
  "cpSampleQ = cpSample\<lparr>inputQueue' := [interruptInput]\<rparr>"

section \<open>Properties\<close>

subsection \<open>The patterns of regexInit\<close>

lemma plus_rests_set:
  "t \<in> set (plus_rests P s) \<longleftrightarrow> (\<exists>pre. s = pre @ t \<and> pre \<noteq> [] \<and> (\<forall>c\<in>set pre. P c))"
proof (induction s)
  case Nil
  show ?case by simp
next
  case (Cons c cs)
  show ?case
  proof (cases "P c")
    case False
    then show ?thesis by (auto simp: Cons_eq_append_conv)
  next
    case True
    show ?thesis
    proof
      assume "t \<in> set (plus_rests P (c # cs))"
      with True have "t = cs \<or> t \<in> set (plus_rests P cs)" by simp
      then show "\<exists>pre. c # cs = pre @ t \<and> pre \<noteq> [] \<and> (\<forall>c\<in>set pre. P c)"
      proof
        assume "t = cs"
        with True have "c # cs = [c] @ t \<and> [c] \<noteq> [] \<and> (\<forall>x\<in>set [c]. P x)" by simp
        then show ?thesis by blast
      next
        assume "t \<in> set (plus_rests P cs)"
        with Cons.IH obtain pre where "cs = pre @ t" "pre \<noteq> []" "\<forall>c\<in>set pre. P c" by blast
        with True have "c # cs = (c # pre) @ t \<and> c # pre \<noteq> [] \<and> (\<forall>x\<in>set (c # pre). P x)" by simp
        then show ?thesis by blast
      qed
    next
      assume "\<exists>pre. c # cs = pre @ t \<and> pre \<noteq> [] \<and> (\<forall>c\<in>set pre. P c)"
      then obtain pre where p: "c # cs = pre @ t" "pre \<noteq> []" "\<forall>c\<in>set pre. P c" by blast
      then obtain pre' where pre: "pre = c # pre'" "cs = pre' @ t" by (cases pre) auto
      show "t \<in> set (plus_rests P (c # cs))"
      proof (cases "pre' = []")
        case True
        with pre \<open>P c\<close> show ?thesis by simp
      next
        case False
        with pre p Cons.IH have "t \<in> set (plus_rests P cs)" by auto
        with \<open>P c\<close> show ?thesis by simp
      qed
    qed
  qed
qed

lemma rests_CharSet: "t \<in> set (rests (CharSet P) s) \<longleftrightarrow> (\<exists>c. s = c # t \<and> P c)"
  by (cases s) auto

lemma rests_Seq3:
  "x \<in> set (rests (Seq A (Seq B C)) s) \<longleftrightarrow>
     (\<exists>t\<in>set (rests A s). \<exists>u\<in>set (rests B t). x \<in> set (rests C u))"
  by simp

lemma not_word_or_underscore: "(\<not> is_word c \<or> c = CHR ''_'') = (\<not> is_alnum c)"
  by (auto simp: is_word_def is_alnum_def)

lemma regex_match_promptPattern:
  "regex_match s promptPattern \<longleftrightarrow>
     (\<exists>a c sp. s = a @ c # sp \<and> a \<noteq> [] \<and> \<not> is_alnum c \<and> sp \<noteq> [] \<and> (\<forall>x\<in>set sp. x = CHR '' ''))"
proof -
  let ?Q = "\<lambda>c. \<not> is_word c \<or> c = CHR ''_''"
  let ?S = "\<lambda>c. c = CHR '' ''"
  have "regex_match s promptPattern \<longleftrightarrow>
        (\<exists>t u. t \<in> set (plus_rests (\<lambda>c. True) s) \<and> u \<in> set (rests (CharSet ?Q) t) \<and>
               [] \<in> set (plus_rests ?S u))"
    unfolding regex_match_def promptPattern_def rests_Seq3 rests.simps(3) by blast
  also have "\<dots> \<longleftrightarrow>
        (\<exists>t u. (\<exists>pre. s = pre @ t \<and> pre \<noteq> []) \<and> (\<exists>c. t = c # u \<and> \<not> is_alnum c) \<and>
               u \<noteq> [] \<and> (\<forall>x\<in>set u. x = CHR '' ''))"
    unfolding plus_rests_set rests_CharSet not_word_or_underscore by simp
  also have "\<dots> \<longleftrightarrow>
        (\<exists>a c sp. s = a @ c # sp \<and> a \<noteq> [] \<and> \<not> is_alnum c \<and> sp \<noteq> [] \<and> (\<forall>x\<in>set sp. x = CHR '' ''))"
    (is "?L \<longleftrightarrow> ?R")
  proof
    assume ?L
    then obtain t u pre c where "s = pre @ t" "pre \<noteq> []" "t = c # u" "\<not> is_alnum c"
      "u \<noteq> []" "\<forall>x\<in>set u. x = CHR '' ''" by auto
    then have "s = pre @ c # u \<and> pre \<noteq> [] \<and> \<not> is_alnum c \<and> u \<noteq> [] \<and> (\<forall>x\<in>set u. x = CHR '' '')"
      by simp
    then show ?R by (intro exI)
  next
    assume ?R
    then obtain a c sp where "s = a @ c # sp" "a \<noteq> []" "\<not> is_alnum c" "sp \<noteq> []"
      "\<forall>x\<in>set sp. x = CHR '' ''" by auto
    then have "(\<exists>pre. s = pre @ c # sp \<and> pre \<noteq> []) \<and> (\<exists>d. c # sp = d # sp \<and> \<not> is_alnum d) \<and>
               sp \<noteq> [] \<and> (\<forall>x\<in>set sp. x = CHR '' '')"
      by simp
    then show ?L by (intro exI)
  qed
  finally show ?thesis .
qed

lemma regex_search_controlCharsPattern:
  "regex_search s controlCharsPattern \<longleftrightarrow> CR \<in> set s \<or> BS \<in> set s"
proof -
  have "(\<exists>t. suffix t s \<and> rests (CharSet P) t \<noteq> []) \<longleftrightarrow> (\<exists>c\<in>set s. P c)" for P
  proof
    assume "\<exists>t. suffix t s \<and> rests (CharSet P) t \<noteq> []"
    then obtain t where t: "suffix t s" "rests (CharSet P) t \<noteq> []" by blast
    then obtain c u where "t = c # u" "P c" by (cases t) (auto split: if_splits)
    with t show "\<exists>c\<in>set s. P c" by (auto simp: suffix_def)
  next
    assume "\<exists>c\<in>set s. P c"
    then obtain c where "c \<in> set s" "P c" by blast
    then obtain ys zs where "s = ys @ c # zs" by (auto dest: split_list)
    with \<open>P c\<close> have "suffix (c # zs) s \<and> rests (CharSet P) (c # zs) \<noteq> []"
      by (simp add: suffix_def)
    then show "\<exists>t. suffix t s \<and> rests (CharSet P) t \<noteq> []" by blast
  qed
  note key = this
  have "regex_search s controlCharsPattern \<longleftrightarrow>
        (\<exists>t. suffix t s \<and> rests (CharSet (\<lambda>c. c = CR \<or> c = BS)) t \<noteq> [])"
    by (simp add: regex_search_def controlCharsPattern_def list_ex_iff Bex_def)
  also have "\<dots> \<longleftrightarrow> (\<exists>c\<in>set s. c = CR \<or> c = BS)"
    by (rule key)
  also have "\<dots> \<longleftrightarrow> CR \<in> set s \<or> BS \<in> set s"
    by blast
  finally show ?thesis .
qed


subsection \<open>Output buffer and output events\<close>

lemma appendToOutputBuffer_frame:
  "options' (fst (appendToOutputBuffer cp w str)) = options' cp"
  "handle (fst (appendToOutputBuffer cp w str)) = handle cp"
  "maxOutputLines' (procInfo' (fst (appendToOutputBuffer cp w str))) = maxOutputLines' (procInfo' cp)"
  "terminalSequence' (procInfo' (fst (appendToOutputBuffer cp w str))) = terminalSequence' (procInfo' cp)"
  "onPrompt' (fst (appendToOutputBuffer cp w str)) = onPrompt' cp"
  "clientEvents (snd (appendToOutputBuffer cp w str)) = clientEvents w"
  "passwordManager (snd (appendToOutputBuffer cp w str)) = passwordManager w"
  by (simp_all add: appendToOutputBuffer_def ConsoleProcessInfo_appendToOutputBuffer_def handle_def
        getLogFilePath_def appendToFile_def LOG_ERROR_def split: sum.splits option.splits prod.splits)


subsection \<open>Lines and truncation\<close>

lemma lines_of_eq_Nil: "lines_of s = [] \<longleftrightarrow> s = []"
  by (cases s) (auto split: list.splits)

lemma concat_lines_of: "concat (lines_of s) = s"
  by (induction s) (auto simp: lines_of_eq_Nil split: list.splits)





lemma trimLeadingLines_short:
  "length (lines_of s) \<le> nat n \<Longrightarrow> trimLeadingLines n s = s"
  by (simp add: trimLeadingLines_def concat_lines_of)



subsection \<open>Reading the buffer back\<close>

lemma appendToOutputBuffer_tab:
  assumes "terminalSequence' (procInfo' cp) \<noteq> kNoTerminal"
    and "ensureDirectory_error w = None" and "appendToFile_error w = None"
  shows "appendToOutputBuffer cp w str =
           (cp, w\<lparr>files := (files w)(handle cp \<mapsto> stored w (handle cp) @ str)\<rparr>)"
  using assms
  by (simp add: appendToOutputBuffer_def getLogFilePath_def appendToFile_def stored_def handle_def
        split: option.splits)

lemma appendToOutputBuffer_modal:
  assumes "terminalSequence' (procInfo' cp) = kNoTerminal"
  shows "appendToOutputBuffer cp w str =
           (cp\<lparr>procInfo' := (procInfo' cp)\<lparr>outputBuffer' := outputBuffer' (procInfo' cp) @ str\<rparr>\<rparr>, w)"
  using assms by (simp add: appendToOutputBuffer_def ConsoleProcessInfo_appendToOutputBuffer_def)

lemma appendAll_tab:
  assumes "terminalSequence' (procInfo' cp) \<noteq> kNoTerminal"
    and "ensureDirectory_error w = None" and "appendToFile_error w = None"
  shows "fst (appendAll cp w strs) = cp \<and>
         ensureDirectory_error (snd (appendAll cp w strs)) = None \<and>
         readStringFromFile_error (snd (appendAll cp w strs)) = readStringFromFile_error w \<and>
         stored (snd (appendAll cp w strs)) (handle cp) = stored w (handle cp) @ concat strs"
  using assms
proof (induction strs arbitrary: w)
  case Nil
  then show ?case by simp
next
  case (Cons str strs)
  let ?w1 = "w\<lparr>files := (files w)(handle cp \<mapsto> stored w (handle cp) @ str)\<rparr>"
  have step: "appendToOutputBuffer cp w str = (cp, ?w1)"
    using Cons.prems by (rule appendToOutputBuffer_tab)
  have "ensureDirectory_error ?w1 = None" "appendToFile_error ?w1 = None"
    using Cons.prems by simp_all
  from Cons.IH [OF Cons.prems(1) this]
  show ?case
    using step by (simp add: stored_def)
qed

lemma appendAll_modal:
  assumes "terminalSequence' (procInfo' cp) = kNoTerminal"
  shows "appendAll cp w strs =
           (cp\<lparr>procInfo' := (procInfo' cp)\<lparr>outputBuffer' := outputBuffer' (procInfo' cp) @ concat strs\<rparr>\<rparr>, w)"
  using assms
proof (induction strs arbitrary: cp)
  case Nil
  show ?case by simp
next
  case (Cons str strs)
  let ?cp1 = "cp\<lparr>procInfo' := (procInfo' cp)\<lparr>outputBuffer' := outputBuffer' (procInfo' cp) @ str\<rparr>\<rparr>"
  have step: "appendToOutputBuffer cp w str = (?cp1, w)"
    using Cons.prems by (rule appendToOutputBuffer_modal)
  have "terminalSequence' (procInfo' ?cp1) = kNoTerminal"
    using Cons.prems by simp
  from Cons.IH [OF this] show ?case
    using step by simp
qed

lemma getSavedBuffer_stored:
  assumes "ensureDirectory_error w = None" and "readStringFromFile_error w = None"
  shows "getSavedBuffer cp w = (stored w (handle cp), w)"
  using assms
  by (simp add: getSavedBuffer_def getLogFilePath_def readStringFromFile_def stored_def handle_def
        split: option.splits)

text \<open>
  C6 as stated fails for a modal console. \<^verbatim>\<open>procGetBuffer\<close> returns \<^verbatim>\<open>getSavedBuffer()\<close>, which
  reads the log file named by the handle whatever the kind of session, and the output of a
  modal console is appended to the embedded buffer, not to that file. Below, \<^verbatim>\<open>done\n\<close> is
  appended to a modal console; its embedded buffer holds it, and \<^verbatim>\<open>get_buffer\<close> returns the
  empty string.
\<close>

theorem C6_counterexample:
  "terminalSequence' (procInfo' cpSample) = kNoTerminal \<and>
   appendToOutputBuffer cpSample worldSample (''done'' @ [LF]) = (cpDone, worldSample) \<and>
   outputBuffer' (procInfo' cpDone) = ''done'' @ [LF] \<and>
   procGetBuffer ''h1'' regSample worldSample = (Inr [], worldSample)"
  by (simp add: cpSample_def cpDone_def infoSample_def regSample_def procGetBuffer_def find_proc_def
        getSavedBuffer_def getLogFilePath_def worldSample_def appendToOutputBuffer_def
        ConsoleProcessInfo_appendToOutputBuffer_def)

text \<open>
  C6, amended. \<^verbatim>\<open>get_buffer\<close> returns the text of the log file named by the handle (empty when
  there is no such file), as it is. For a terminal tab that is the text the file held before
  followed by exactly the texts appended to the session's output storage since, in order,
  nothing added and nothing lost (when the directory, the appends and the read do not fail).
  For a modal console the appended texts go to the embedded buffer of its metadata and
  \<^verbatim>\<open>get_buffer\<close> does not return them: it still returns the text of the log file.
\<close>

theorem C6_get_buffer:
  assumes "ensureDirectory_error w = None" and "appendToFile_error w = None"
    and "readStringFromFile_error w = None"
    and "appendAll cp w strs = (cp1, w1)"
    and "find_proc reg h = Some (a, cp1)"
  shows "(terminalSequence' (procInfo' cp) \<noteq> kNoTerminal \<longrightarrow>
            procGetBuffer h reg w1 = (Inr (stored w (handle cp) @ concat strs), w1)) \<and>
         (terminalSequence' (procInfo' cp) = kNoTerminal \<longrightarrow>
            procGetBuffer h reg w1 = (Inr (stored w (handle cp)), w1) \<and>
            outputBuffer' (procInfo' cp1) = outputBuffer' (procInfo' cp) @ concat strs)"
proof (intro conjI impI)
  assume tab: "terminalSequence' (procInfo' cp) \<noteq> kNoTerminal"
  from appendAll_tab [OF tab assms(1,2), of strs] assms(3,4)
  have "cp1 = cp" "ensureDirectory_error w1 = None" "readStringFromFile_error w1 = None"
    "stored w1 (handle cp) = stored w (handle cp) @ concat strs"
    by simp_all
  then show "procGetBuffer h reg w1 = (Inr (stored w (handle cp) @ concat strs), w1)"
    using assms(5) by (simp add: procGetBuffer_def getSavedBuffer_stored)
next
  assume modal: "terminalSequence' (procInfo' cp) = kNoTerminal"
  from appendAll_modal [OF modal, of w strs] assms(4)
  have cp1: "cp1 = cp\<lparr>procInfo' := (procInfo' cp)\<lparr>outputBuffer' := outputBuffer' (procInfo' cp) @ concat strs\<rparr>\<rparr>"
    and w1: "w1 = w"
    by simp_all
  show "procGetBuffer h reg w1 = (Inr (stored w (handle cp)), w1)"
    using assms(1,3,5) cp1 w1 by (simp add: procGetBuffer_def getSavedBuffer_stored handle_def)
  show "outputBuffer' (procInfo' cp1) = outputBuffer' (procInfo' cp) @ concat strs"
    using cp1 by simp
qed

theorem C6_get_buffer_witness:
  "ensureDirectory_error worldSample = None \<and> appendToFile_error worldSample = None \<and>
   readStringFromFile_error worldSample = None \<and>
   terminalSequence' (procInfo' cpTab) \<noteq> kNoTerminal \<and>
   find_proc regTab ''h1'' = Some (1, cpTab) \<and>
   fst (appendAll cpTab worldSample [''do'', ''ne'' @ [LF]]) = cpTab \<and>
   fst (procGetBuffer ''h1'' regTab (snd (appendAll cpTab worldSample [''do'', ''ne'' @ [LF]]))) =
     Inr (''done'' @ [LF]) \<and>
   terminalSequence' (procInfo' cpSample) = kNoTerminal \<and>
   appendAll cpSample worldSample [''do'', ''ne'' @ [LF]] = (cpDone, worldSample) \<and>
   find_proc regSample ''h1'' = Some (0, cpDone) \<and>
   procGetBuffer ''h1'' regSample worldSample = (Inr [], worldSample)"
proof -
  have ok: "ensureDirectory_error worldSample = None" "appendToFile_error worldSample = None"
    "readStringFromFile_error worldSample = None"
    by (simp_all add: worldSample_def)
  have tab: "terminalSequence' (procInfo' cpTab) \<noteq> kNoTerminal"
    and modal: "terminalSequence' (procInfo' cpSample) = kNoTerminal"
    by (simp_all add: cpTab_def cpSample_def infoSample_def kNoTerminal_def)
  have f1: "find_proc regTab ''h1'' = Some (1, cpTab)"
    and f0: "find_proc regSample ''h1'' = Some (0, cpDone)"
    by (simp_all add: find_proc_def regTab_def regSample_def)
  have a1: "fst (appendAll cpTab worldSample [''do'', ''ne'' @ [LF]]) = cpTab"
    using appendAll_tab [OF tab ok(1,2), of "[''do'', ''ne'' @ [LF]]"] by blast
  have f1': "find_proc regTab ''h1'' = Some (1, fst (appendAll cpTab worldSample [''do'', ''ne'' @ [LF]]))"
    unfolding a1 by (rule f1)
  have a0: "appendAll cpSample worldSample [''do'', ''ne'' @ [LF]] = (cpDone, worldSample)"
    unfolding appendAll_modal [OF modal] by (simp add: cpDone_def cpSample_def infoSample_def)
  have st: "stored worldSample (handle cpTab) = []" "stored worldSample (handle cpSample) = []"
    by (simp_all add: stored_def worldSample_def)
  show ?thesis
    using C6_get_buffer [OF ok prod.collapse [symmetric] f1'] C6_get_buffer [OF ok a0 f0]
          ok tab modal f1 f0 a1 a0 st
    by (simp del: appendAll.simps)
qed

subsection \<open>Reattaching to a started session\<close>

text \<open>
  C5. When \<open>info\<close> allows a restart, has a handle, and the table has a started session under
  that handle, \<^verbatim>\<open>createTerminalProcess\<close> returns the pointer the table holds, with the
  session resized to 25 by 5; it allocates no process object and leaves the world as it
  is (no launch is asked of the supervisor, the index is not rewritten). A second call gives
  the same pointer and changes nothing more, and the table holds exactly one entry for the
  handle (its keys being distinct, as those of a \<^verbatim>\<open>std::map\<close> are).
\<close>

theorem C5_reattach:
  assumes "allowRestart' info" and "handle' info \<noteq> []"
    and "find_proc reg (handle' info) = Some (a, cp)" and "isStarted cp"
    and "distinct (map fst (s_procs reg))"
  defines "reg1 \<equiv> reg\<lparr>heap := (heap reg)[a := resize cp 25 5]\<rparr>"
  shows "createTerminalProcess J sus opts info reg w = (a, reg1, w) \<and>
         createTerminalProcess J sus opts' info reg1 w = (a, reg1, w) \<and>
         find_proc reg1 (handle' info) = Some (a, resize cp 25 5) \<and>
         newCols' (resize cp 25 5) = 25 \<and> newRows' (resize cp 25 5) = 5 \<and>
         isStarted (resize cp 25 5) \<and>
         length (heap reg1) = length (heap reg) \<and>
         length (filter (\<lambda>(k, p). k = handle' info) (s_procs reg1)) = 1"
proof -
  from assms(3) have tbl: "map_of (s_procs reg) (handle' info) = Some a" and a: "a < length (heap reg)"
    by (auto simp: find_proc_def split: option.splits if_splits)
  have first: "createTerminalProcess J sus opts info reg w = (a, reg1, w)"
    using assms(1-4) by (simp add: createTerminalProcess_def reg1_def)
  have found: "find_proc reg1 (handle' info) = Some (a, resize cp 25 5)"
    using tbl a by (simp add: find_proc_def reg1_def)
  have started: "isStarted (resize cp 25 5)"
    using assms(4) by (simp add: isStarted_def resize_def)
  have same: "reg1\<lparr>heap := (heap reg1)[a := resize (resize cp 25 5) 25 5]\<rparr> = reg1"
    by (simp add: reg1_def resize_def)
  have second: "createTerminalProcess J sus opts' info reg1 w = (a, reg1, w)"
    using assms(1,2) found started same by (simp add: createTerminalProcess_def)
  have one: "length (filter (\<lambda>(k, p). k = handle' info) t) = 1"
    if "distinct (map fst t)" "map_of t (handle' info) = Some a" for t :: ProcTable
    using that
  proof (induction t)
    case Nil
    then show ?case by simp
  next
    case (Cons x t)
    obtain k p where x: "x = (k, p)" by (cases x)
    show ?case
    proof (cases "k = handle' info")
      case True
      with Cons.prems x have "\<forall>(k', p') \<in> set t. k' \<noteq> handle' info" by force
      then have "filter (\<lambda>(k, p). k = handle' info) t = []"
        by (auto simp: filter_empty_conv)
      with True x show ?thesis by simp
    next
      case False
      with Cons x show ?thesis by simp
    qed
  qed
  have count: "length (filter (\<lambda>(k, p). k = handle' info) (s_procs reg1)) = 1"
    using one [OF assms(5) tbl] by (simp add: reg1_def)
  show ?thesis
    using first second found started count by (simp add: resize_def reg1_def)
qed

theorem C5_reattach_witness:
  "allowRestart' (procInfo' cpTab) \<and> handle' (procInfo' cpTab) = ''h1'' \<and>
   find_proc regTab ''h1'' = Some (1, cpTab) \<and> isStarted cpTab \<and>
   distinct (map fst (s_procs regTab)) \<and>
   createTerminalProcess jsonSample id ProcessOptions0 (procInfo' cpTab) regTab worldSample =
     (1, \<lparr>s_procs = [(''h0'', 0), (''h1'', 1)], heap = [cpCreated, resize cpTab 25 5]\<rparr>, worldSample)"
proof -
  have a: "allowRestart' (procInfo' cpTab)" and h: "handle' (procInfo' cpTab) \<noteq> []"
    and h1: "handle' (procInfo' cpTab) = ''h1''"
    and st: "isStarted cpTab" and d: "distinct (map fst (s_procs regTab))"
    by (simp_all add: cpTab_def cpSample_def infoSample_def isStarted_def regTab_def)
  have f: "find_proc regTab (handle' (procInfo' cpTab)) = Some (1, cpTab)"
    unfolding h1 by (simp add: find_proc_def regTab_def)
  have r: "regTab\<lparr>heap := (heap regTab)[1 := resize cpTab 25 5]\<rparr> =
           \<lparr>s_procs = [(''h0'', 0), (''h1'', 1)], heap = [cpCreated, resize cpTab 25 5]\<rparr>"
    by (simp add: regTab_def)
  show ?thesis
    using C5_reattach [OF a h f st d, of jsonSample id ProcessOptions0 worldSample ProcessOptions0]
          a h1 f st d r
    by simp
qed

subsection \<open>The persisted index\<close>

lemma InteractionMode_roundtrip: "InteractionMode_of_int (InteractionMode_int m) = Some m"
  by (cases m) (simp_all add: InteractionMode_int_def InteractionMode_of_int_def)

lemma fromJson_toJson: "fromJson (toJson info) = Some (persisted info)"
  by (cases "exitCode' info")
     (simp_all add: fromJson_def toJson_def get_str_def get_bool_def get_int_def get_int_or_null_def
        InteractionMode_roundtrip persisted_def)

lemma ConsoleProcess_fromJson_toJson:
  "ConsoleProcess_fromJson (ConsoleProcess_toJson cp) = Some (ConsoleProcess1 (persisted (procInfo' cp)))"
  by (simp add: ConsoleProcess_fromJson_def ConsoleProcess_toJson_def fromJson_toJson)

lemma handle_ConsoleProcess1_persisted:
  "handle (ConsoleProcess1 (persisted (procInfo' cp))) = handle cp"
  by (simp add: handle_def ConsoleProcess1_def persisted_def ConsoleProcessInfo_appendToOutputBuffer_def)

lemma ProcTable_assign_last:
  "\<forall>k' \<in> set (map fst t). k' < k \<Longrightarrow> ProcTable_assign k v t = t @ [(k, v)]"
  by (induction t) auto

lemma deserialize_loop_sorted:
  assumes "sorted_wrt (<) (map fst t @ map handle cps)"
  shows "deserialize_loop (map ConsoleProcess_toJson cps) \<lparr>s_procs = t, heap = h\<rparr> =
           (None, \<lparr>s_procs = t @ zip (map handle cps) [length h ..< length h + length cps],
                heap = h @ map (\<lambda>cp. ConsoleProcess1 (persisted (procInfo' cp))) cps\<rparr>)"
  using assms
proof (induction cps arbitrary: t h)
  case Nil
  show ?case by simp
next
  case (Cons cp cps)
  let ?cp1 = "ConsoleProcess1 (persisted (procInfo' cp))"
  have less: "\<forall>k' \<in> set (map fst t). k' < handle cp"
    using Cons.prems by (auto simp: sorted_wrt_append)
  have assign: "ProcTable_assign (handle cp) (length h) t = t @ [(handle cp, length h)]"
    using less by (rule ProcTable_assign_last)
  have "sorted_wrt (<) (map fst (t @ [(handle cp, length h)]) @ map handle cps)"
    using Cons.prems by simp
  from Cons.IH [OF this, of "h @ [?cp1]"]
  have "deserialize_loop (map ConsoleProcess_toJson cps)
          \<lparr>s_procs = t @ [(handle cp, length h)], heap = h @ [?cp1]\<rparr> =
        (None, \<lparr>s_procs = t @ zip (map handle (cp # cps)) [length h ..< length h + length (cp # cps)],
             heap = h @ map (\<lambda>cp. ConsoleProcess1 (persisted (procInfo' cp))) (cp # cps)\<rparr>)"
    by (simp add: upt_conv_Cons del: upt_Suc)
  then show ?case
    using assign
    by (simp add: ConsoleProcess_fromJson_toJson new_def handle_ConsoleProcess1_persisted
          del: upt_Suc)
qed

lemma serialize_loop_no_suspend:
  "\<forall>(k, a) \<in> set t. a < length (heap reg) \<Longrightarrow>
   serialize_loop infoOnSuspend False t reg =
     (map ConsoleProcess_toJson (map (\<lambda>(k, a). heap reg ! a) t), reg)"
  by (induction t) auto

lemma map_filter_all_Some:
  "\<forall>x \<in> set xs. f x = Some (g x) \<Longrightarrow> List.map_filter f xs = map g xs"
  by (induction xs) simp_all

lemma table_procs_distinct:
  assumes "distinct (map fst t)" and "\<forall>(k, a) \<in> set t. a < length h"
  shows "table_procs \<lparr>s_procs = t, heap = h\<rparr> = map (\<lambda>(k, a). h ! a) t"
proof -
  have "(case x of (k, a) \<Rightarrow> map_option snd (find_proc \<lparr>s_procs = t, heap = h\<rparr> k)) =
        Some (case x of (k, a) \<Rightarrow> h ! a)" if "x \<in> set t" for x
  proof -
    obtain k a where x: "x = (k, a)" by (cases x)
    with that assms have "map_of t k = Some a" "a < length h" by auto
    with x show ?thesis by (simp add: find_proc_def)
  qed
  then have all: "\<forall>x \<in> set t.
      (case x of (k, a) \<Rightarrow> map_option snd (find_proc \<lparr>s_procs = t, heap = h\<rparr> k)) =
      Some (case x of (k, a) \<Rightarrow> h ! a)"
    by blast
  show ?thesis
    unfolding table_procs_def by (simp add: map_filter_all_Some [OF all])
qed

lemma map_case_prod_snd: "map (\<lambda>(k, a). f a) xs = map f (map snd xs)"
  by (induction xs) auto

lemma sorted_wrt_less_distinct: "sorted_wrt (<) (ks :: string list) \<Longrightarrow> distinct ks"
  by (induction ks) auto

lemma persisted_ConsoleProcess1:
  "(procInfo' (ConsoleProcess1 (persisted info)))\<lparr>outputBuffer' := [], isStarted' := False\<rparr> =
   info\<lparr>outputBuffer' := [], isStarted' := False\<rparr>"
  by (simp add: ConsoleProcess1_def persisted_def ConsoleProcessInfo_appendToOutputBuffer_def)

text \<open>
  C8. Take a table in the order of its keys, each key the handle of the session its pointer
  leads to, and a JSON library whose parser gives back the document written for the table.
  Deserializing the serialized table into an empty table succeeds and gives a table with the
  same handles in the same order, each the handle of its session, and sessions whose metadata
  is the same as before but for the output buffer and the started flag: caption, title,
  terminal sequence, allowRestart, hasChildProcs, exit code and the rest are identical, and
  no session of the new table is started.
\<close>

theorem C8_roundtrip:
  assumes sorted: "sorted_wrt (<) (map fst (s_procs reg))"
    and keys: "\<forall>(k, a) \<in> set (s_procs reg). a < length (heap reg) \<and> handle (heap reg ! a) = k"
    and codec: "json_parse J (json_write J (jarray (map ConsoleProcess_toJson (table_procs reg)))) =
                  Some (jarray (map ConsoleProcess_toJson (table_procs reg)))"
               "json_write J (jarray (map ConsoleProcess_toJson (table_procs reg))) \<noteq> []"
  shows "\<exists>reg'. deserializeConsoleProcs J (fst (serializeConsoleProcs J infoOnSuspend False reg))
                  \<lparr>s_procs = [], heap = []\<rparr> w = (None, reg', w) \<and>
               map fst (s_procs reg') = map fst (s_procs reg) \<and>
               map handle (table_procs reg') = map fst (s_procs reg') \<and>
               map (\<lambda>cp. (procInfo' cp)\<lparr>outputBuffer' := [], isStarted' := False\<rparr>) (table_procs reg') =
               map (\<lambda>cp. (procInfo' cp)\<lparr>outputBuffer' := [], isStarted' := False\<rparr>) (table_procs reg) \<and>
               (\<forall>cp \<in> set (table_procs reg'). \<not> isStarted cp)"
proof -
  let ?t = "s_procs reg" and ?h = "heap reg"
  let ?cps = "table_procs reg"
  let ?n = "length ?cps"
  let ?new = "map (\<lambda>cp. ConsoleProcess1 (persisted (procInfo' cp))) ?cps"
  let ?reg' = "\<lparr>s_procs = zip (map handle ?cps) [0 ..< ?n], heap = ?new\<rparr>"
  have dist: "distinct (map fst ?t)"
    using sorted by (rule sorted_wrt_less_distinct)
  have reg: "reg = \<lparr>s_procs = ?t, heap = ?h\<rparr>" by simp
  have cps: "?cps = map (\<lambda>(k, a). ?h ! a) ?t"
    using table_procs_distinct [OF dist, of ?h] keys reg by (metis (mono_tags, lifting) case_prodD case_prodI2)
  have handles: "map handle ?cps = map fst ?t"
    unfolding cps using keys by (auto simp: case_prod_beta)
  have loop: "deserialize_loop (map ConsoleProcess_toJson ?cps) \<lparr>s_procs = [], heap = []\<rparr> =
              (None, ?reg')"
    using deserialize_loop_sorted [of "[]" ?cps "[]"] sorted handles by simp
  have "\<forall>(k, a) \<in> set ?t. a < length ?h"
    using keys by auto
  then have "serialize_loop infoOnSuspend False ?t reg = (map ConsoleProcess_toJson ?cps, reg)"
    unfolding cps by (rule serialize_loop_no_suspend)
  then have ser: "fst (serializeConsoleProcs J infoOnSuspend False reg) =
                  json_write J (jarray (map ConsoleProcess_toJson ?cps))"
    by (simp add: serializeConsoleProcs_def)
  have des: "deserializeConsoleProcs J (fst (serializeConsoleProcs J infoOnSuspend False reg))
               \<lparr>s_procs = [], heap = []\<rparr> w = (None, ?reg', w)"
    unfolding ser using codec loop by (simp add: deserializeConsoleProcs_def)
  have len: "length (map handle ?cps) = length [0 ..< ?n]" by simp
  have fst_zip: "map fst (zip (map handle ?cps) [0 ..< ?n]) = map handle ?cps"
    by (rule map_fst_zip) simp
  have tp': "table_procs ?reg' = ?new"
  proof -
    have d: "distinct (map fst (zip (map handle ?cps) [0 ..< ?n]))"
      unfolding fst_zip using dist handles by simp
    have r: "\<forall>(k, a) \<in> set (zip (map handle ?cps) [0 ..< ?n]). a < length ?new"
      by (auto dest: set_zip_rightD)
    have snd_zip: "map snd (zip (map handle ?cps) [0 ..< ?n]) = [0 ..< length ?new]"
      by simp
    have "table_procs ?reg' = map (\<lambda>(k, a). ?new ! a) (zip (map handle ?cps) [0 ..< ?n])"
      using table_procs_distinct [OF d r] .
    also have "\<dots> = map ((!) ?new) (map snd (zip (map handle ?cps) [0 ..< ?n]))"
      by (rule map_case_prod_snd)
    also have "\<dots> = map ((!) ?new) [0 ..< length ?new]"
      by (simp only: snd_zip)
    also have "\<dots> = ?new"
      by (rule map_nth)
    finally show ?thesis .
  qed
  have k1: "map fst (s_procs ?reg') = map handle ?cps"
    using fst_zip by simp
  have "map fst (s_procs ?reg') = map fst ?t"
    using k1 handles by (rule trans)
  moreover have "map handle (table_procs ?reg') = map fst (s_procs ?reg')"
    unfolding tp' k1 by (simp add: handle_ConsoleProcess1_persisted)
  moreover have "map (\<lambda>cp. (procInfo' cp)\<lparr>outputBuffer' := [], isStarted' := False\<rparr>) (table_procs ?reg') =
                 map (\<lambda>cp. (procInfo' cp)\<lparr>outputBuffer' := [], isStarted' := False\<rparr>) ?cps"
    unfolding tp' by (simp add: persisted_ConsoleProcess1)
  moreover have "\<forall>cp \<in> set (table_procs ?reg'). \<not> isStarted cp"
    unfolding tp'
    by (auto simp: isStarted_def ConsoleProcess1_def persisted_def ConsoleProcessInfo_appendToOutputBuffer_def)
  ultimately show ?thesis
    using des by blast
qed

theorem C8_roundtrip_witness:
  "sorted_wrt (<) (map fst (s_procs regTab)) \<and>
   s_procs regTab = [(''h0'', 0), (''h1'', 1)] \<and> length (heap regTab) = 2 \<and>
   handle (heap regTab ! 0) = ''h0'' \<and> handle (heap regTab ! 1) = ''h1'' \<and>
   table_procs regTab = [cpCreated, cpTab] \<and>
   json_parse jsonSample (json_write jsonSample (jarray (map ConsoleProcess_toJson (table_procs regTab)))) =
     Some (jarray (map ConsoleProcess_toJson (table_procs regTab))) \<and>
   (case deserializeConsoleProcs jsonSample (fst (serializeConsoleProcs jsonSample id False regTab))
           \<lparr>s_procs = [], heap = []\<rparr> worldSample of
      (e, reg', w') \<Rightarrow>
        e = None \<and> map fst (s_procs reg') = [''h0'', ''h1''] \<and>
        map (\<lambda>cp. caption' (procInfo' cp)) (table_procs reg') = [''Push'', ''Push''] \<and>
        map (\<lambda>cp. terminalSequence' (procInfo' cp)) (table_procs reg') = [kNoTerminal, 1])"
proof -
  have s: "sorted_wrt (<) (map fst (s_procs regTab))"
    by (simp add: regTab_def)
  have k: "\<forall>(k, a) \<in> set (s_procs regTab). a < length (heap regTab) \<and> handle (heap regTab ! a) = k"
    by (simp add: regTab_def handle_def cpCreated_def cpTab_def cpSample_def infoSample_def)
  have t: "table_procs regTab = [cpCreated, cpTab]"
    by (simp add: table_procs_def find_proc_def regTab_def List.map_filter_simps)
  have c: "json_parse jsonSample (json_write jsonSample (jarray (map ConsoleProcess_toJson (table_procs regTab)))) =
           Some (jarray (map ConsoleProcess_toJson (table_procs regTab)))"
          "json_write jsonSample (jarray (map ConsoleProcess_toJson (table_procs regTab))) \<noteq> []"
    unfolding t by (simp_all add: jsonSample_def)
  from C8_roundtrip [OF s k c, of id worldSample]
  obtain reg' where
    des: "deserializeConsoleProcs jsonSample (fst (serializeConsoleProcs jsonSample id False regTab))
            \<lparr>s_procs = [], heap = []\<rparr> worldSample = (None, reg', worldSample)"
    and hs: "map fst (s_procs reg') = map fst (s_procs regTab)"
    and infos: "map (\<lambda>cp. (procInfo' cp)\<lparr>outputBuffer' := [], isStarted' := False\<rparr>) (table_procs reg') =
                map (\<lambda>cp. (procInfo' cp)\<lparr>outputBuffer' := [], isStarted' := False\<rparr>) (table_procs regTab)"
    by blast
  have cap: "caption' (procInfo' cp) = caption' ((procInfo' cp)\<lparr>outputBuffer' := [], isStarted' := False\<rparr>)"
    and ts: "terminalSequence' (procInfo' cp) =
             terminalSequence' ((procInfo' cp)\<lparr>outputBuffer' := [], isStarted' := False\<rparr>)"
    for cp :: ConsoleProcess
    by simp_all
  have "map (\<lambda>cp. caption' (procInfo' cp)) (table_procs reg') =
        map caption' (map (\<lambda>cp. (procInfo' cp)\<lparr>outputBuffer' := [], isStarted' := False\<rparr>) (table_procs reg'))"
    by (simp add: comp_def)
  then have caps: "map (\<lambda>cp. caption' (procInfo' cp)) (table_procs reg') = [''Push'', ''Push'']"
    unfolding infos t by (simp add: cpCreated_def cpTab_def cpSample_def infoSample_def)
  have "map (\<lambda>cp. terminalSequence' (procInfo' cp)) (table_procs reg') =
        map terminalSequence' (map (\<lambda>cp. (procInfo' cp)\<lparr>outputBuffer' := [], isStarted' := False\<rparr>) (table_procs reg'))"
    by (simp add: comp_def)
  then have tss: "map (\<lambda>cp. terminalSequence' (procInfo' cp)) (table_procs reg') = [kNoTerminal, 1]"
    unfolding infos t by (simp add: cpCreated_def cpTab_def cpSample_def infoSample_def)
  have keys: "map fst (s_procs reg') = [''h0'', ''h1'']"
    using hs by (simp add: regTab_def)
  have k': "s_procs regTab = [(''h0'', 0), (''h1'', 1)]" "length (heap regTab) = 2"
    "handle (heap regTab ! 0) = ''h0''" "handle (heap regTab ! 1) = ''h1''"
    by (simp_all add: regTab_def handle_def cpCreated_def cpTab_def cpSample_def infoSample_def)
  show ?thesis
    using s k' t c(1) des keys caps tss by simp
qed

subsection \<open>Smart terminals\<close>

text \<open>
  C10 as stated fails on a chunk with more lines than the session's maximum. \<^verbatim>\<open>onStdout\<close>
  hands the chunk to \<^verbatim>\<open>enqueOutputEvent\<close>, which cuts the payload of every output event with
  \<^verbatim>\<open>trimLeadingLines\<close>: the event does not carry the chunk unchanged. Below, a smart terminal
  with a maximum of two lines receives three lines; the event holds the last two.
\<close>

theorem C10_counterexample:
  "smartTerminal (options' cpSmartModal) \<and> maxOutputLines' (procInfo' cpSmartModal) = 2 \<and>
   threeLines = ''a'' @ [LF] @ ''b'' @ [CR, LF] @ ''Password: '' \<and>
   clientEvents (fst (snd (onStdout cpSmartModal worldSample opsSample threeLines))) =
     [kConsoleProcessOutput ''h1'' False (''b'' @ [CR, LF] @ ''Password: '')] \<and>
   ''b'' @ [CR, LF] @ ''Password: '' \<noteq> threeLines"
  by code_simp

text \<open>
  C10, amended. On a session whose options have the smart terminal flag, \<^verbatim>\<open>onStdout\<close> hands
  the chunk as received to \<^verbatim>\<open>enqueOutputEvent\<close> and does nothing else: the line endings are
  not converted and \<^verbatim>\<open>maybeConsolePrompt\<close> is not reached, so the one event added is an output
  event, never a prompt event. The whole chunk is appended to the output buffer (embedded
  buffer of a modal console, log file of a terminal tab when the directory and the append do
  not fail); the payload of the event is the chunk cut to the maximum of output lines, as
  for every output event, which is the chunk itself when it has no more lines than that.
  \<^verbatim>\<open>bufferedOutput\<close> is empty before and after, whatever is appended.
\<close>

theorem C10_smart_terminal:
  assumes "smartTerminal (options' cp)"
  shows "onStdout cp w ops chunk =
           (case appendToOutputBuffer cp w chunk of
              (cp1, w1) \<Rightarrow>
                (cp1,
                 enqueClientEvent (kConsoleProcessOutput (handle cp) False
                    (trimLeadingLines (maxOutputLines' (procInfo' cp)) chunk)) w1,
                 ops)) \<and>
         clientEvents (fst (snd (onStdout cp w ops chunk))) =
           clientEvents w @ [kConsoleProcessOutput (handle cp) False
                               (trimLeadingLines (maxOutputLines' (procInfo' cp)) chunk)] \<and>
         (length (lines_of chunk) \<le> nat (maxOutputLines' (procInfo' cp)) \<longrightarrow>
            trimLeadingLines (maxOutputLines' (procInfo' cp)) chunk = chunk) \<and>
         (terminalSequence' (procInfo' cp) = kNoTerminal \<longrightarrow>
            outputBuffer' (procInfo' (fst (onStdout cp w ops chunk))) =
              outputBuffer' (procInfo' cp) @ chunk) \<and>
         (terminalSequence' (procInfo' cp) \<noteq> kNoTerminal \<and> ensureDirectory_error w = None \<and>
          appendToFile_error w = None \<longrightarrow>
            files (fst (snd (onStdout cp w ops chunk))) (handle cp) =
              Some (stored w (handle cp) @ chunk)) \<and>
         bufferedOutput cp = [] \<and>
         bufferedOutput (fst (appendToOutputBuffer cp w str)) = [] \<and>
         bufferedOutput (fst (onStdout cp w ops chunk)) = []"
proof -
  have eq: "onStdout cp w ops chunk =
           (case appendToOutputBuffer cp w chunk of
              (cp1, w1) \<Rightarrow>
                (cp1,
                 enqueClientEvent (kConsoleProcessOutput (handle cp) False
                    (trimLeadingLines (maxOutputLines' (procInfo' cp)) chunk)) w1,
                 ops))"
    using assms appendToOutputBuffer_frame [of cp w chunk]
    by (simp add: onStdout_def enqueOutputEvent_def split_beta)
  have ev: "clientEvents (fst (snd (onStdout cp w ops chunk))) =
           clientEvents w @ [kConsoleProcessOutput (handle cp) False
                               (trimLeadingLines (maxOutputLines' (procInfo' cp)) chunk)]"
    unfolding eq using appendToOutputBuffer_frame [of cp w chunk]
    by (simp add: split_beta enqueClientEvent_def)
  have modal: "outputBuffer' (procInfo' (fst (onStdout cp w ops chunk))) =
              outputBuffer' (procInfo' cp) @ chunk"
    if "terminalSequence' (procInfo' cp) = kNoTerminal"
    unfolding eq appendToOutputBuffer_modal [OF that] by simp
  have tab: "files (fst (snd (onStdout cp w ops chunk))) (handle cp) =
              Some (stored w (handle cp) @ chunk)"
    if "terminalSequence' (procInfo' cp) \<noteq> kNoTerminal" "ensureDirectory_error w = None"
       "appendToFile_error w = None"
    unfolding eq appendToOutputBuffer_tab [OF that] by (simp add: enqueClientEvent_def)
  have b1: "bufferedOutput cp = []"
    using assms by (simp add: bufferedOutput_def)
  have b2: "bufferedOutput (fst (appendToOutputBuffer cp w str)) = []"
    using assms appendToOutputBuffer_frame(1) [of cp w str] by (simp add: bufferedOutput_def)
  have b3: "bufferedOutput (fst (onStdout cp w ops chunk)) = []"
    unfolding eq using assms appendToOutputBuffer_frame(1) [of cp w chunk]
    by (simp add: bufferedOutput_def split_beta)
  show ?thesis
    using eq ev modal tab b1 b2 b3 trimLeadingLines_short [of chunk "maxOutputLines' (procInfo' cp)"]
    by blast
qed

theorem C10_smart_terminal_witness:
  "smartTerminal (options' cpSmartModal) \<and>
   terminalSequence' (procInfo' cpSmartModal) = kNoTerminal \<and>
   clientEvents (fst (snd (onStdout cpSmartModal worldSample opsSample threeLines))) =
     [kConsoleProcessOutput ''h1'' False (''b'' @ [CR, LF] @ ''Password: '')] \<and>
   outputBuffer' (procInfo' (fst (onStdout cpSmartModal worldSample opsSample threeLines))) = threeLines \<and>
   bufferedOutput (fst (onStdout cpSmartModal worldSample opsSample threeLines)) = [] \<and>
   length (lines_of (''Password: '' @ [CR])) \<le> nat (maxOutputLines' (procInfo' cpSmartModal)) \<and>
   clientEvents (fst (snd (onStdout cpSmartModal worldSample opsSample (''Password: '' @ [CR])))) =
     [kConsoleProcessOutput ''h1'' False (''Password: '' @ [CR])] \<and>
   smartTerminal (options' cpSmart) \<and> terminalSequence' (procInfo' cpSmart) \<noteq> kNoTerminal \<and>
   ensureDirectory_error worldSample = None \<and> appendToFile_error worldSample = None \<and>
   files (fst (snd (onStdout cpSmart worldSample opsSample threeLines))) ''h1'' = Some threeLines"
proof -
  have smart: "smartTerminal (options' cpSmartModal)" and smart2: "smartTerminal (options' cpSmart)"
    by (simp_all add: cpSmartModal_def cpSmart_def)
  have vals: "terminalSequence' (procInfo' cpSmartModal) = kNoTerminal"
    "terminalSequence' (procInfo' cpSmart) \<noteq> kNoTerminal"
    "ensureDirectory_error worldSample = None" "appendToFile_error worldSample = None"
    "handle cpSmartModal = ''h1''" "handle cpSmart = ''h1''" "clientEvents worldSample = []"
    "outputBuffer' (procInfo' cpSmartModal) = []" "stored worldSample ''h1'' = []"
    "maxOutputLines' (procInfo' cpSmartModal) = 2"
    by (simp_all add: cpSmartModal_def cpSmart_def cpTab_def cpSample_def infoSample_def handle_def
          worldSample_def stored_def kNoTerminal_def)
  have trim: "trimLeadingLines 2 threeLines = ''b'' @ [CR, LF] @ ''Password: ''"
    by (simp add: trimLeadingLines_def threeLines_def)
  have short: "length (lines_of (''Password: '' @ [CR])) \<le> nat (maxOutputLines' (procInfo' cpSmartModal))"
    by (simp add: cpSmartModal_def)
  note t1 = C10_smart_terminal [OF smart, of worldSample opsSample threeLines "[]"]
  note t2 = C10_smart_terminal [OF smart, of worldSample opsSample "''Password: '' @ [CR]" "[]"]
  note t3 = C10_smart_terminal [OF smart2, of worldSample opsSample threeLines "[]"]
  have "clientEvents (fst (snd (onStdout cpSmartModal worldSample opsSample threeLines))) =
          clientEvents worldSample @ [kConsoleProcessOutput (handle cpSmartModal) False
             (trimLeadingLines (maxOutputLines' (procInfo' cpSmartModal)) threeLines)]"
    using t1 by blast
  then have e1: "clientEvents (fst (snd (onStdout cpSmartModal worldSample opsSample threeLines))) =
     [kConsoleProcessOutput ''h1'' False (''b'' @ [CR, LF] @ ''Password: '')]"
    using vals trim by simp
  have "outputBuffer' (procInfo' (fst (onStdout cpSmartModal worldSample opsSample threeLines))) =
          outputBuffer' (procInfo' cpSmartModal) @ threeLines"
    using t1 vals(1) by blast
  then have o1: "outputBuffer' (procInfo' (fst (onStdout cpSmartModal worldSample opsSample threeLines))) = threeLines"
    using vals by simp
  have b1: "bufferedOutput (fst (onStdout cpSmartModal worldSample opsSample threeLines)) = []"
    using t1 by blast
  have "clientEvents (fst (snd (onStdout cpSmartModal worldSample opsSample (''Password: '' @ [CR])))) =
          clientEvents worldSample @ [kConsoleProcessOutput (handle cpSmartModal) False
             (trimLeadingLines (maxOutputLines' (procInfo' cpSmartModal)) (''Password: '' @ [CR]))]"
       "trimLeadingLines (maxOutputLines' (procInfo' cpSmartModal)) (''Password: '' @ [CR]) =
          ''Password: '' @ [CR]"
    using t2 short by blast+
  then have e2: "clientEvents (fst (snd (onStdout cpSmartModal worldSample opsSample (''Password: '' @ [CR])))) =
     [kConsoleProcessOutput ''h1'' False (''Password: '' @ [CR])]"
    using vals by simp
  have "files (fst (snd (onStdout cpSmart worldSample opsSample threeLines))) (handle cpSmart) =
          Some (stored worldSample (handle cpSmart) @ threeLines)"
    using t3 vals(2,3,4) by blast
  then have f3: "files (fst (snd (onStdout cpSmart worldSample opsSample threeLines))) ''h1'' = Some threeLines"
    using vals by simp
  show ?thesis
    using smart smart2 vals short e1 o1 b1 e2 f3 by simp
qed

subsection \<open>Starting a process\<close>

text \<open>
  C9. \<^verbatim>\<open>start\<close> on a started session returns success and changes nothing: the supervisor is
  not asked for a launch. On a session that is not started, the supervisor is asked for one
  launch and its answer is returned; on success the session is started; on failure the
  session is as it was, not started, and the next \<^verbatim>\<open>start\<close> asks for the same launch again.
\<close>

theorem C9_start:
  "(isStarted cp \<longrightarrow> start cp w = (None, cp, w)) \<and>
   (\<not> isStarted cp \<longrightarrow>
      (\<exists>req. launches (snd (snd (start cp w))) = launches w @ [req] \<and>
             fst (start cp w) = processSupervisor w req \<and>
             (fst (start cp w) = None \<longrightarrow> isStarted (fst (snd (start cp w)))) \<and>
             (fst (start cp w) \<noteq> None \<longrightarrow>
                fst (snd (start cp w)) = cp \<and>
                launches (snd (snd (start (fst (snd (start cp w))) (snd (snd (start cp w)))))) =
                  launches w @ [req, req])))"
  by (auto simp: start_def isStarted_def Let_def)

theorem C9_start_witness:
  "isStarted cpSample \<and> start cpSample worldSample = (None, cpSample, worldSample) \<and>
   \<not> isStarted cpCreated \<and>
   fst (start cpCreated worldFailing) = Some (SystemError ''no such file'') \<and>
   fst (snd (start cpCreated worldFailing)) = cpCreated \<and>
   launches (snd (snd (start cpCreated worldFailing))) = [runCommand ''git push'' ProcessOptions0] \<and>
   fst (start cpCreated worldSample) = None \<and>
   isStarted (fst (snd (start cpCreated worldSample)))"
proof -
  have st: "isStarted cpSample" "\<not> isStarted cpCreated"
    by (simp_all add: isStarted_def cpSample_def cpCreated_def infoSample_def)
  have sup: "processSupervisor worldFailing = (\<lambda>req. Some (SystemError ''no such file''))"
     "processSupervisor worldSample = (\<lambda>req. None)" "launches worldFailing = []"
    by (simp_all add: worldFailing_def worldSample_def)
  have req: "launches (snd (snd (start cpCreated worldFailing))) = [runCommand ''git push'' ProcessOptions0]"
    by (simp add: start_def Let_def cpCreated_def cpSample_def infoSample_def worldFailing_def worldSample_def)
  show ?thesis
    using C9_start [of cpSample worldSample] C9_start [of cpCreated worldFailing]
          C9_start [of cpCreated worldSample] st sup req
    by auto
qed

subsection \<open>Prompt detection\<close>

text \<open>
  For a candidate with no carriage return and no backspace, the prompt is handled if and only
  if the candidate matches the prompt pattern; otherwise it is ordinary output. The
  chunks \<^verbatim>\<open>Password: \<close>, \<^verbatim>\<open>Password: \r\<close> and \<^verbatim>\<open>done\n\<close> of the spec give a prompt event, an
  output event (the carriage return is normalised to a line feed, so the chunk is complete
  output) and an output event.
\<close>

lemma maybeConsolePrompt_no_control:
  assumes "CR \<notin> set output" "BS \<notin> set output"
  shows "maybeConsolePrompt cp w ops output =
           (if regex_match output promptPattern then handleConsolePrompt cp w ops output
            else (case enqueOutputEvent cp w output False of (cp2, w2) \<Rightarrow> (cp2, w2, ops)))"
  using assms by (simp add: maybeConsolePrompt_def regex_search_controlCharsPattern)

lemma onStdout_examples:
  "clientEvents (fst (snd (onStdout cpSample worldSample opsSample ''Password: ''))) =
     [kConsoleProcessPrompt ''h1'' ''Password: '']"
  "clientEvents (fst (snd (onStdout cpSample worldSample opsSample (''Password: '' @ [CR])))) =
     [kConsoleProcessOutput ''h1'' False (''Password: '' @ [LF])]"
  "clientEvents (fst (snd (onStdout cpSample worldSample opsSample (''done'' @ [LF])))) =
     [kConsoleProcessOutput ''h1'' False (''done'' @ [LF])]"
  by code_simp+

text \<open>
  C1 fails on a candidate that contains a backspace and matches the prompt pattern. In
  \<^verbatim>\<open>maybeConsolePrompt\<close> the test for control characters is an \<^verbatim>\<open>if\<close> with no \<^verbatim>\<open>else\<close>: after
  the output event the pattern test runs all the same, and the candidate is handled as a
  prompt. The source's comment has it "treat special control characters as output rather
  than a prompt". Below, the chunk is a backspace followed by \<^verbatim>\<open>Password: \<close>, on a session that
  is not a smart terminal and has no prompt handler: an output event, then a prompt event.
\<close>

theorem C1_control_character_prompt:
  "BS \<in> set (BS # ''Password: '') \<and> onPrompt' cpSample = None \<and>
   \<not> smartTerminal (options' cpSample) \<and>
   clientEvents (fst (snd (onStdout cpSample worldSample opsSample (BS # ''Password: '')))) =
     [kConsoleProcessOutput ''h1'' False (BS # ''Password: ''),
      kConsoleProcessPrompt ''h1'' (BS # ''Password: '')]"
  by code_simp

subsection \<open>Interrupt\<close>

text \<open>
  C3 as stated fails: \<^verbatim>\<open>interrupt()\<close> sets \<^verbatim>\<open>interrupt_\<close>, and on the next tick \<^verbatim>\<open>onContinue\<close>
  returns false before it does anything else. It makes no call on the process operations
  (no pty interrupt), echoes nothing, and does not clear the flag.
\<close>

theorem C3_counterexample:
  "interrupt' (interrupt cpSample) \<and> opsCalls opsSample = [] \<and>
   onContinue (interrupt cpSample) worldSample opsSample =
     (False, interrupt cpSample, worldSample, opsSample)"
  by (simp add: onContinue_def interrupt_def opsSample_def)

lemma appendToOutputBuffer_interrupt:
  "interrupt' (fst (appendToOutputBuffer cp w str)) = interrupt' cp"
  by (simp add: appendToOutputBuffer_def split: sum.splits option.splits prod.splits)

lemma onContinue_input_interrupt:
  "interrupt' (fst (onContinue_input cp w ops input)) = interrupt' cp"
  using appendToOutputBuffer_interrupt
  by (simp add: onContinue_input_def Let_def split_beta)

lemma onContinue_front:
  assumes "\<not> interrupt' cp" and "inputQueue' cp = input # rest"
  shows "onContinue cp w ops =
           (case onContinue_input (cp\<lparr>inputQueue' := rest\<rparr>) w ops input of
              (cp1, w1, ops1) \<Rightarrow> onContinue cp1 w1 ops1)"
proof -
  obtain cp1 w1 ops1 where step: "onContinue_input (cp\<lparr>inputQueue' := rest\<rparr>) w ops input = (cp1, w1, ops1)"
    by (cases "onContinue_input (cp\<lparr>inputQueue' := rest\<rparr>) w ops input") auto
  have "interrupt' cp1 = interrupt' (cp\<lparr>inputQueue' := rest\<rparr>)"
    using onContinue_input_interrupt [of "cp\<lparr>inputQueue' := rest\<rparr>" w ops input] step by simp
  with assms have ni: "\<not> interrupt' cp1" by simp
  have loop: "onContinue_loop cp w ops = onContinue_loop cp1 w1 ops1"
    using assms(2) step by (subst onContinue_loop.simps) simp
  show ?thesis
    using assms(1) ni loop step by (simp add: onContinue_def)
qed

lemma onContinue_empty:
  assumes "\<not> interrupt' cp" and "inputQueue' cp = []"
  shows "onContinue cp w ops =
           (if newCols' cp \<noteq> - 1 \<and> newRows' cp \<noteq> - 1
            then (True, cp\<lparr>newCols' := - 1, newRows' := - 1\<rparr>, w,
                  ops_call (ptySetSize (newCols' cp) (newRows' cp)) ops)
            else (True, cp, w, ops))"
proof -
  have "onContinue_loop cp w ops = (cp, w, ops)"
    using assms(2) by (subst onContinue_loop.simps) simp
  with assms(1) show ?thesis by (simp add: onContinue_def)
qed

text \<open>
  C3, amended. \<^verbatim>\<open>interrupt()\<close> sets the interrupt flag; on the next scheduling tick
  \<^verbatim>\<open>onContinue\<close> returns false and changes nothing: the flag stays set, no operation of the
  process is called and nothing is echoed. \<^verbatim>\<open>onContinue\<close> returns false exactly when the
  interrupt flag is set, and true otherwise. The interrupt signal of the pty and, if
  \<^verbatim>\<open>echoInput\<close> is set, the echoed \<^verbatim>\<open>^C\<close> come from a queued input whose \<^verbatim>\<open>interrupt\<close> field is
  set: a tick of a session that is not interrupted pops the front of the queue and, if that
  input is an interrupt, calls \<^verbatim>\<open>ptyInterrupt\<close> (logging its error, if any), appends \<^verbatim>\<open>^C\<close> to the
  output buffer if the input asks for the echo, and goes on as the tick on the rest of the
  queue; if the front is text it is written to the standard input of the process (and
  echoed, or a newline appended, unless the terminal is smart) and the tick goes on
  likewise; with an empty queue it applies the pending resize, if any, and returns true. The
  echo of a modal console goes to its embedded buffer, that of a terminal tab to its log
  file (when the directory and the append do not fail).
\<close>

theorem C3_interrupt:
  "interrupt' (interrupt cp) \<and>
   onContinue (interrupt cp) w ops = (False, interrupt cp, w, ops) \<and>
   fst (onContinue cp w ops) = (\<not> interrupt' cp) \<and>
   (\<not> interrupt' cp \<and> inputQueue' cp = [] \<longrightarrow>
      onContinue cp w ops =
        (if newCols' cp \<noteq> - 1 \<and> newRows' cp \<noteq> - 1
         then (True, cp\<lparr>newCols' := - 1, newRows' := - 1\<rparr>, w,
               ops_call (ptySetSize (newCols' cp) (newRows' cp)) ops)
         else (True, cp, w, ops))) \<and>
   (\<not> interrupt' cp \<and> inputQueue' cp = input # rest \<and> Input_interrupt input \<longrightarrow>
      onContinue cp w ops =
        (case (if Input_echoInput input
               then appendToOutputBuffer (cp\<lparr>inputQueue' := rest\<rparr>)
                      (case ptyInterrupt_error ops of Some e \<Rightarrow> LOG_ERROR e w | None \<Rightarrow> w) ''^C''
               else (cp\<lparr>inputQueue' := rest\<rparr>,
                     (case ptyInterrupt_error ops of Some e \<Rightarrow> LOG_ERROR e w | None \<Rightarrow> w))) of
           (cp2, w2) \<Rightarrow> onContinue cp2 w2 (ops_call ptyInterrupt ops))) \<and>
   (\<not> interrupt' cp \<and> inputQueue' cp = input # rest \<and> \<not> Input_interrupt input \<longrightarrow>
      onContinue cp w ops =
        (case (if \<not> smartTerminal (options' cp)
               then appendToOutputBuffer (cp\<lparr>inputQueue' := rest\<rparr>)
                      (case writeToStdin_error ops of Some e \<Rightarrow> LOG_ERROR e w | None \<Rightarrow> w)
                      (if Input_echoInput input then Input_text input else [LF])
               else (cp\<lparr>inputQueue' := rest\<rparr>,
                     (case writeToStdin_error ops of Some e \<Rightarrow> LOG_ERROR e w | None \<Rightarrow> w))) of
           (cp2, w2) \<Rightarrow> onContinue cp2 w2 (ops_call (writeToStdin (Input_text input) False) ops))) \<and>
   (terminalSequence' (procInfo' cp) = kNoTerminal \<longrightarrow>
      appendToOutputBuffer cp w ''^C'' =
        (cp\<lparr>procInfo' := (procInfo' cp)\<lparr>outputBuffer' := outputBuffer' (procInfo' cp) @ ''^C''\<rparr>\<rparr>, w)) \<and>
   (terminalSequence' (procInfo' cp) \<noteq> kNoTerminal \<and> ensureDirectory_error w = None \<and>
    appendToFile_error w = None \<longrightarrow>
      appendToOutputBuffer cp w ''^C'' =
        (cp, w\<lparr>files := (files w)(handle cp \<mapsto> stored w (handle cp) @ ''^C'')\<rparr>))"
proof -
  have a: "interrupt' (interrupt cp)"
    by (simp add: interrupt_def)
  have b: "onContinue (interrupt cp) w ops = (False, interrupt cp, w, ops)"
    by (simp add: onContinue_def interrupt_def)
  have c: "fst (onContinue cp w ops) = (\<not> interrupt' cp)"
    by (simp add: onContinue_def split_beta)
  have d: "onContinue cp w ops =
        (case (if Input_echoInput input
               then appendToOutputBuffer (cp\<lparr>inputQueue' := rest\<rparr>)
                      (case ptyInterrupt_error ops of Some e \<Rightarrow> LOG_ERROR e w | None \<Rightarrow> w) ''^C''
               else (cp\<lparr>inputQueue' := rest\<rparr>,
                     (case ptyInterrupt_error ops of Some e \<Rightarrow> LOG_ERROR e w | None \<Rightarrow> w))) of
           (cp2, w2) \<Rightarrow> onContinue cp2 w2 (ops_call ptyInterrupt ops))"
    if "\<not> interrupt' cp" "inputQueue' cp = input # rest" "Input_interrupt input"
    unfolding onContinue_front [OF that(1,2)] using that(3)
    by (simp add: onContinue_input_def Let_def split_beta)
  have e: "onContinue cp w ops =
        (case (if \<not> smartTerminal (options' cp)
               then appendToOutputBuffer (cp\<lparr>inputQueue' := rest\<rparr>)
                      (case writeToStdin_error ops of Some e \<Rightarrow> LOG_ERROR e w | None \<Rightarrow> w)
                      (if Input_echoInput input then Input_text input else [LF])
               else (cp\<lparr>inputQueue' := rest\<rparr>,
                     (case writeToStdin_error ops of Some e \<Rightarrow> LOG_ERROR e w | None \<Rightarrow> w))) of
           (cp2, w2) \<Rightarrow> onContinue cp2 w2 (ops_call (writeToStdin (Input_text input) False) ops))"
    if "\<not> interrupt' cp" "inputQueue' cp = input # rest" "\<not> Input_interrupt input"
    unfolding onContinue_front [OF that(1,2)] using that(3)
    by (simp add: onContinue_input_def Let_def split_beta)
  show ?thesis
    using a b c d e onContinue_empty [of cp w ops]
          appendToOutputBuffer_modal [of cp w "''^C''"] appendToOutputBuffer_tab [of cp w "''^C''"]
    by blast
qed

theorem C3_interrupt_witness:
  "\<not> interrupt' cpTabQ \<and> inputQueue' cpTabQ = [interruptInput] \<and>
   Input_interrupt interruptInput \<and> Input_echoInput interruptInput \<and>
   terminalSequence' (procInfo' cpTab) \<noteq> kNoTerminal \<and> ensureDirectory_error worldSample = None \<and>
   appendToFile_error worldSample = None \<and>
   onContinue cpTabQ worldSample opsSample =
     (True, cpTab, worldSample\<lparr>files := (files worldSample)(''h1'' \<mapsto> ''^C'')\<rparr>,
      opsSample\<lparr>opsCalls := [ptyInterrupt]\<rparr>) \<and>
   terminalSequence' (procInfo' cpSample) = kNoTerminal \<and>
   onContinue cpSampleQ worldSample opsSample =
     (True, cpSample\<lparr>procInfo' := infoSample\<lparr>outputBuffer' := ''^C''\<rparr>\<rparr>, worldSample,
      opsSample\<lparr>opsCalls := [ptyInterrupt]\<rparr>) \<and>
   onContinue (interrupt cpTabQ) worldSample opsSample = (False, interrupt cpTabQ, worldSample, opsSample)"
proof -
  have q: "\<not> interrupt' cpTabQ" "inputQueue' cpTabQ = [interruptInput]"
    "\<not> interrupt' cpSampleQ" "inputQueue' cpSampleQ = [interruptInput]"
    "Input_interrupt interruptInput" "Input_echoInput interruptInput"
    by (simp_all add: cpTabQ_def cpSampleQ_def cpTab_def cpSample_def interruptInput_def)
  have k: "terminalSequence' (procInfo' cpTab) \<noteq> kNoTerminal"
    "terminalSequence' (procInfo' cpSample) = kNoTerminal"
    "ensureDirectory_error worldSample = None" "appendToFile_error worldSample = None"
    "ptyInterrupt_error opsSample = None"
    by (simp_all add: cpTab_def cpSample_def infoSample_def kNoTerminal_def worldSample_def opsSample_def)
  have v: "cpTabQ\<lparr>inputQueue' := []\<rparr> = cpTab" "cpSampleQ\<lparr>inputQueue' := []\<rparr> = cpSample"
    "stored worldSample (handle cpTab) = []" "handle cpTab = ''h1''"
    "ops_call ptyInterrupt opsSample = opsSample\<lparr>opsCalls := [ptyInterrupt]\<rparr>"
    "procInfo' cpSample = infoSample" "outputBuffer' infoSample = []"
    by (simp_all add: cpTabQ_def cpSampleQ_def cpTab_def cpSample_def infoSample_def stored_def
          worldSample_def handle_def ops_call_def opsSample_def)
  have e1: "\<not> interrupt' cpTab" "inputQueue' cpTab = []" "newCols' cpTab = - 1"
    by (simp_all add: cpTab_def cpSample_def)
  let ?cpC = "cpSample\<lparr>procInfo' := infoSample\<lparr>outputBuffer' := ''^C''\<rparr>\<rparr>"
  have e2: "\<not> interrupt' ?cpC" "inputQueue' ?cpC = []" "newCols' ?cpC = - 1"
    by (simp_all add: cpSample_def)
  note t1 = C3_interrupt [of cpTabQ worldSample opsSample interruptInput "[]"]
  note t2 = C3_interrupt [of cpSampleQ worldSample opsSample interruptInput "[]"]
  note t3 = C3_interrupt [of cpTab worldSample opsSample interruptInput "[]"]
  note t4 = C3_interrupt [of cpSample worldSample opsSample interruptInput "[]"]
  note t5 = C3_interrupt [of cpTab "worldSample\<lparr>files := (files worldSample)(''h1'' \<mapsto> ''^C'')\<rparr>"
              "opsSample\<lparr>opsCalls := [ptyInterrupt]\<rparr>" interruptInput "[]"]
  note t6 = C3_interrupt [of ?cpC worldSample "opsSample\<lparr>opsCalls := [ptyInterrupt]\<rparr>" interruptInput "[]"]
  have a1: "appendToOutputBuffer cpTab worldSample ''^C'' =
            (cpTab, worldSample\<lparr>files := (files worldSample)(''h1'' \<mapsto> ''^C'')\<rparr>)"
    using t3 k v by simp
  have a2: "appendToOutputBuffer cpSample worldSample ''^C'' = (?cpC, worldSample)"
    using t4 k v by simp
  have r5: "onContinue cpTab (worldSample\<lparr>files := (files worldSample)(''h1'' \<mapsto> ''^C'')\<rparr>)
              (opsSample\<lparr>opsCalls := [ptyInterrupt]\<rparr>) =
            (True, cpTab, worldSample\<lparr>files := (files worldSample)(''h1'' \<mapsto> ''^C'')\<rparr>,
             opsSample\<lparr>opsCalls := [ptyInterrupt]\<rparr>)"
    using t5 e1 by simp
  have r6: "onContinue ?cpC worldSample (opsSample\<lparr>opsCalls := [ptyInterrupt]\<rparr>) =
            (True, ?cpC, worldSample, opsSample\<lparr>opsCalls := [ptyInterrupt]\<rparr>)"
    using t6 e2 by simp
  have r1: "onContinue cpTabQ worldSample opsSample =
            (True, cpTab, worldSample\<lparr>files := (files worldSample)(''h1'' \<mapsto> ''^C'')\<rparr>,
             opsSample\<lparr>opsCalls := [ptyInterrupt]\<rparr>)"
    using t1 q k v a1 r5 by simp
  have r2: "onContinue cpSampleQ worldSample opsSample =
            (True, ?cpC, worldSample, opsSample\<lparr>opsCalls := [ptyInterrupt]\<rparr>)"
    using t2 q k v a2 r6 by simp
  have r3: "onContinue (interrupt cpTabQ) worldSample opsSample =
            (False, interrupt cpTabQ, worldSample, opsSample)"
    using t1 by blast
  show ?thesis
    using q k r1 r2 r3 by simp
qed

subsection \<open>Password cache and process exit\<close>

text \<open>
  C4. When the process with handle \<open>h\<close> exits with a failing code, no cached password of
  \<open>h\<close> is left, whatever its remember flag; when it exits with success, the entries of \<open>h\<close>
  that are left are exactly those with the remember flag set; in both cases the entries of
  every other handle are the same as before, in the same order.
\<close>

theorem C4_onExit_purge:
  "(exitCode \<noteq> EXIT_SUCCESS \<longrightarrow>
      filter (\<lambda>c. cpHandle c = h) (passwords' (PasswordManager_onExit pm h exitCode)) = []) \<and>
   (exitCode = EXIT_SUCCESS \<longrightarrow>
      filter (\<lambda>c. cpHandle c = h) (passwords' (PasswordManager_onExit pm h exitCode)) =
      filter (\<lambda>c. cpHandle c = h \<and> remember c) (passwords' pm)) \<and>
   filter (\<lambda>c. cpHandle c \<noteq> h) (passwords' (PasswordManager_onExit pm h exitCode)) =
   filter (\<lambda>c. cpHandle c \<noteq> h) (passwords' pm)"
proof -
  let ?ps = "passwords' pm"
  have fail: "filter (\<lambda>c. cpHandle c = h) (filter (\<lambda>c. \<not> hasHandle c h) ?ps) = []"
    by (induction ?ps) (auto simp: hasHandle_def)
  have ok: "filter (\<lambda>c. cpHandle c = h) (filter (\<lambda>c. \<not> forgetOnExit c h) ?ps) =
            filter (\<lambda>c. cpHandle c = h \<and> remember c) ?ps"
    by (auto simp: forgetOnExit_def hasHandle_def intro: filter_cong)
  have other1: "filter (\<lambda>c. cpHandle c \<noteq> h) (filter (\<lambda>c. \<not> hasHandle c h) ?ps) =
                filter (\<lambda>c. cpHandle c \<noteq> h) ?ps"
    by (simp add: hasHandle_def)
  have other2: "filter (\<lambda>c. cpHandle c \<noteq> h) (filter (\<lambda>c. \<not> forgetOnExit c h) ?ps) =
                filter (\<lambda>c. cpHandle c \<noteq> h) ?ps"
    by (auto simp: forgetOnExit_def hasHandle_def intro: filter_cong)
  show ?thesis
    using fail ok other1 other2 by (simp add: PasswordManager_onExit_def)
qed

theorem C4_onExit_purge_witness:
  "(1::int) \<noteq> EXIT_SUCCESS \<and> (0::int) = EXIT_SUCCESS \<and>
   passwords' (PasswordManager_onExit pmSample ''A'' 1) = [pw ''B'' ''Passphrase: '' ''three'' False] \<and>
   passwords' (PasswordManager_onExit pmSample ''A'' 0) =
     [pw ''A'' ''Password: '' ''one'' True, pw ''B'' ''Passphrase: '' ''three'' False]"
  using C4_onExit_purge [of 1 "''A''" pmSample] C4_onExit_purge [of 0 "''A''" pmSample]
  by (simp add: PasswordManager_onExit_def EXIT_SUCCESS_def pmSample_def pw_def
                hasHandle_def forgetOnExit_def)

subsection \<open>Password cache lookup\<close>

text \<open>
  C2 as stated fails: the lookup is \<^verbatim>\<open>find_if\<close> with \<^verbatim>\<open>hasPrompt\<close>, which compares the prompt
  text only. In the sample cache the one entry for the prompt \<^verbatim>\<open>Password: \<close> belongs to
  handle A; a request of handle B for that prompt is resolved with A's password.
\<close>

theorem C2_counterexample:
  "passwords' pmSample = [pw ''A'' ''Password: '' ''one'' True,
                          pw ''A'' ''Passphrase: '' ''two'' False,
                          pw ''B'' ''Passphrase: '' ''three'' False] \<and>
   promptPattern' pmSample ''Password: '' \<and>
   handlePrompt pmSample ''B'' ''Password: '' False Input0 =
     ((True, Input2 (''one'' @ [LF]) False), pmSample)"
  by (simp add: handlePrompt_def pmSample_def pw_def hasPrompt_def)

text \<open>
  C2, amended. For a prompt text that matches the manager's pattern, a cached entry is used
  only if it has the same prompt text as the request (its handle is not compared). When no
  entry has that text, no cached password is used: the interactive callback is invoked once
  and its answer decides the result (the typed password followed by a newline, with the new
  entry appended to the cache under the request's handle, or the empty input on cancel).
  When an entry with that text is present, the prompt is resolved at once with the password
  of the first such entry followed by a newline, not echoed, and the manager is left as it
  was: the callback is not invoked and the cache is unchanged.
\<close>

theorem C2_cached_by_prompt:
  assumes "promptPattern' pm p"
  shows "(find (\<lambda>c. prompt c = p) (passwords' pm) = None \<longrightarrow>
            handlePrompt pm h p showRememberOption pInput =
              (case promptHandler' pm p showRememberOption of
                 Some (typed, rem) \<Rightarrow>
                   ((True, Input2 (typed @ [LF]) False),
                    pm\<lparr>promptHandlerCalls := promptHandlerCalls pm @ [(p, showRememberOption)],
                       passwords' := passwords' pm @
                         [\<lparr>cpHandle = h, prompt = p, password = typed, remember = rem\<rparr>]\<rparr>)
               | None \<Rightarrow>
                   ((True, Input0),
                    pm\<lparr>promptHandlerCalls := promptHandlerCalls pm @ [(p, showRememberOption)]\<rparr>))) \<and>
         (\<forall>c. find (\<lambda>c. prompt c = p) (passwords' pm) = Some c \<longrightarrow>
            c \<in> set (passwords' pm) \<and> prompt c = p \<and>
            handlePrompt pm h p showRememberOption pInput =
              ((True, Input2 (password c @ [LF]) False), pm))"
proof (intro conjI impI allI)
  assume "find (\<lambda>c. prompt c = p) (passwords' pm) = None"
  with assms show "handlePrompt pm h p showRememberOption pInput =
              (case promptHandler' pm p showRememberOption of
                 Some (typed, rem) \<Rightarrow>
                   ((True, Input2 (typed @ [LF]) False),
                    pm\<lparr>promptHandlerCalls := promptHandlerCalls pm @ [(p, showRememberOption)],
                       passwords' := passwords' pm @
                         [\<lparr>cpHandle = h, prompt = p, password = typed, remember = rem\<rparr>]\<rparr>)
               | None \<Rightarrow>
                   ((True, Input0),
                    pm\<lparr>promptHandlerCalls := promptHandlerCalls pm @ [(p, showRememberOption)]\<rparr>))"
    by (simp add: handlePrompt_def hasPrompt_def Let_def split: option.splits)
next
  fix c assume f: "find (\<lambda>c. prompt c = p) (passwords' pm) = Some c"
  then show "c \<in> set (passwords' pm)" and "prompt c = p"
    by (auto simp: find_Some_iff)
  from f assms show "handlePrompt pm h p showRememberOption pInput =
              ((True, Input2 (password c @ [LF]) False), pm)"
    by (simp add: handlePrompt_def hasPrompt_def)
qed

theorem C2_cached_by_prompt_witness:
  "promptPattern' pmSample ''Password: '' \<and> promptPattern' pmSample ''PIN: '' \<and>
   find (\<lambda>c. prompt c = ''PIN: '') (passwords' pmSample) = None \<and>
   promptHandler' pmSample ''PIN: '' True = Some (''typed'', True) \<and>
   handlePrompt pmSample ''B'' ''PIN: '' True Input0 =
     ((True, Input2 (''typed'' @ [LF]) False),
      pmSample\<lparr>promptHandlerCalls := [(''PIN: '', True)],
                passwords' := passwords' pmSample @ [pw ''B'' ''PIN: '' ''typed'' True]\<rparr>) \<and>
   find (\<lambda>c. prompt c = ''Password: '') (passwords' pmSample) =
     Some (pw ''A'' ''Password: '' ''one'' True) \<and>
   handlePrompt pmSample ''B'' ''Password: '' True Input0 =
     ((True, Input2 (''one'' @ [LF]) False), pmSample)"
proof -
  have m1: "promptPattern' pmSample ''Password: ''" and m2: "promptPattern' pmSample ''PIN: ''"
    by (simp_all add: pmSample_def)
  have f1: "find (\<lambda>c. prompt c = ''PIN: '') (passwords' pmSample) = None"
    by (simp add: pmSample_def pw_def)
  have f2: "find (\<lambda>c. prompt c = ''Password: '') (passwords' pmSample) =
            Some (pw ''A'' ''Password: '' ''one'' True)"
    by (simp add: pmSample_def pw_def)
  have c0: "promptHandlerCalls pmSample = []"
    "promptHandler' pmSample ''PIN: '' True = Some (''typed'', True)"
    by (simp_all add: pmSample_def)
  have pw1: "password (pw ''A'' ''Password: '' ''one'' True) = ''one''"
    "\<lparr>cpHandle = ''B'', prompt = ''PIN: '', password = ''typed'', remember = True\<rparr> =
     pw ''B'' ''PIN: '' ''typed'' True"
    by (simp_all add: pw_def)
  show ?thesis
    using C2_cached_by_prompt [OF m2, of "''B''" True Input0]
          C2_cached_by_prompt [OF m1, of "''B''" True Input0] m1 m2 f1 f2 c0 pw1
    by simp
qed

end
